theory Spec2Isabelle
  imports Main "HOL-Library.Monad_Syntax"
begin

section \<open>The schema, as the Lua generator reads it\<close>

text \<open>
  The generator of \<^verbatim>\<open>idl_gen_lua.cpp\<close> reads the parsed schema and appends Lua
  text to a string. The schema types are declared in \<^verbatim>\<open>idl.h\<close>; the model keeps
  the members the generator reads, under the names the generator uses. A pointer is an
  \<open>option\<close>: \<open>None\<close> is the null pointer.
\<close>

text \<open>
  \<^verbatim>\<open>IDLOptions\<close>: the two options the generator reads.
\<close>

record IDLOptions =
  generate_object_based_api :: bool
  set_empty_vectors_to_null :: bool

datatype BaseType =
    BASE_TYPE_NONE | BASE_TYPE_UTYPE | BASE_TYPE_BOOL | BASE_TYPE_CHAR | BASE_TYPE_UCHAR
  | BASE_TYPE_SHORT | BASE_TYPE_USHORT | BASE_TYPE_INT | BASE_TYPE_UINT | BASE_TYPE_LONG
  | BASE_TYPE_ULONG | BASE_TYPE_FLOAT | BASE_TYPE_DOUBLE | BASE_TYPE_STRING
  | BASE_TYPE_VECTOR | BASE_TYPE_STRUCT | BASE_TYPE_UNION | BASE_TYPE_ARRAY

type_synonym Namespace = "string list"

datatype Type =
    Type (base_type: BaseType) (element: BaseType) (struct_def: "StructDef option")
         (enum_def: "EnumDef option") (fixed_length: nat)
and StructDef =
    StructDef (struct_name: string) (struct_namespace: Namespace)
              (struct_doc_comment: "string list") (fixed: bool) (fields: "FieldDef list")
              (minalign: nat) (bytesize: nat) (struct_generated: bool)
and FieldDef =
    FieldDef (field_name: string) (field_doc_comment: "string list") (value_type: Type)
             (value_constant: string) (value_offset: nat) (deprecated: bool) (padding: nat)
and EnumDef =
    EnumDef (enum_name: string) (enum_namespace: Namespace) (enum_doc_comment: "string list")
            (is_union: bool) (Vals: "EnumVal list") (enum_generated: bool)
and EnumVal =
    EnumVal (val_name: string) (val_doc_comment: "string list") (val_value: int)
            (union_type: Type)

text \<open>
  Functions the generator calls that are defined in other files of the repository
  (\<^verbatim>\<open>util.h\<close>, \<^verbatim>\<open>idl.h\<close>, \<^verbatim>\<open>code_generators.cpp\<close>). The model takes them as
  parameters: \<open>NumToString\<close>, \<open>MakeCamel\<close> (the flag is C++'s \<^verbatim>\<open>first\<close>, which
  defaults to true), \<open>ctypename\<close> (the \<^verbatim>\<open>PTYPE\<close> column of the macro
  \<^verbatim>\<open>FLATBUFFERS_GEN_TYPES\<close>), \<open>InlineSize\<close>, \<open>InlineAlignment\<close>, \<open>GenComment\<close>
  (the text it appends for a doc comment and a prefix, under the comment configuration
  \<^verbatim>\<open>def_comment\<close>), \<open>GetFullyQualifiedName\<close> of a namespace, \<open>WrapInNameSpace\<close>,
  \<open>EnumToString\<close> (\<^verbatim>\<open>enum_def.ToString(ev)\<close>) and \<open>FindByValue\<close>.
\<close>

datatype helpers =
  Helpers (NumToString: "nat \<Rightarrow> string")
          (MakeCamel: "string \<Rightarrow> bool \<Rightarrow> string")
          (ctypename: "BaseType \<Rightarrow> string")
          (InlineSize: "Type \<Rightarrow> nat")
          (InlineAlignment: "Type \<Rightarrow> nat")
          (GenComment: "string list \<Rightarrow> string \<Rightarrow> string")
          (GetFullyQualifiedName: "Namespace \<Rightarrow> string \<Rightarrow> string")
          (WrapInNameSpace: "Namespace \<Rightarrow> string \<Rightarrow> string")
          (EnumToString: "EnumDef \<Rightarrow> EnumVal \<Rightarrow> string")
          (FindByValue: "EnumDef \<Rightarrow> string \<Rightarrow> EnumVal option")

text \<open>
  Modelled from the spec: \<^verbatim>\<open>IsScalar\<close> of \<^verbatim>\<open>idl.h\<close> is not under src/. The spec's
  scalar kinds are the tags that are neither string, vector, struct, union nor array:
  the union discriminant, bool, the integers and the floats.
\<close>

definition IsScalar :: "BaseType \<Rightarrow> bool" where
  "IsScalar t = (t \<in> {BASE_TYPE_UTYPE, BASE_TYPE_BOOL, BASE_TYPE_CHAR, BASE_TYPE_UCHAR,
     BASE_TYPE_SHORT, BASE_TYPE_USHORT, BASE_TYPE_INT, BASE_TYPE_UINT, BASE_TYPE_LONG,
     BASE_TYPE_ULONG, BASE_TYPE_FLOAT, BASE_TYPE_DOUBLE})"

text \<open>
  Modelled from the spec: \<^verbatim>\<open>IsStruct\<close> of \<^verbatim>\<open>idl.h\<close> is not under src/. A type is an
  inline struct when it is tagged STRUCT and the definition it points to is fixed. The
  pointer is followed unchecked: on a STRUCT type with a null \<open>struct_def\<close> the result
  is \<open>None\<close>, here and in every function of the generator that follows a pointer.
\<close>

definition IsStruct :: "Type \<Rightarrow> bool option" where
  "IsStruct t =
     (if base_type t = BASE_TYPE_STRUCT
      then (case struct_def t of None \<Rightarrow> None | Some sd \<Rightarrow> Some (fixed sd))
      else Some False)"

text \<open>
  Modelled from the spec: \<^verbatim>\<open>Type::VectorType\<close> of \<^verbatim>\<open>idl.h\<close> is not under src/. The
  element type of a vector: the element tag becomes the tag, the references are kept.
\<close>

definition VectorType :: "Type \<Rightarrow> Type" where
  "VectorType t = Type (element t) BASE_TYPE_NONE (struct_def t) (enum_def t) (fixed_length t)"

text \<open>
  Modelled from the spec: \<^verbatim>\<open>EnumVal::IsZero\<close> of \<^verbatim>\<open>idl.h\<close> is not under src/. The
  reserved discriminant of a union is the value 0.
\<close>

definition IsZero :: "EnumVal \<Rightarrow> bool" where
  "IsZero ev = (val_value ev = 0)"

section \<open>Reserved words\<close>

definition lua_keywords :: "string list" where
  "lua_keywords =
     [''and'', ''break'', ''do'', ''else'', ''elseif'', ''end'', ''false'', ''for'',
      ''function'', ''goto'', ''if'', ''in'', ''local'', ''nil'', ''not'', ''or'',
      ''repeat'', ''return'', ''then'', ''true'', ''until'', ''while'']"

definition EscapeKeyword :: "string \<Rightarrow> string" where
  "EscapeKeyword name = (if name \<notin> set lua_keywords then name else ''_'' @ name)"

definition NormalizedName :: "string \<Rightarrow> string" where
  "NormalizedName name = EscapeKeyword name"

definition NormalizedMetaName :: "string \<Rightarrow> string" where
  "NormalizedMetaName name = EscapeKeyword name @ ''_mt''"

section \<open>The generator\<close>

text \<open>
  Every function of the generator appends to the string behind \<^verbatim>\<open>code_ptr\<close> and
  reads nothing of it. The model of a function is the text it appends; calling two
  functions in sequence concatenates their texts. A function that follows a pointer or
  reaches \<^verbatim>\<open>FLATBUFFERS_ASSERT(0)\<close> returns an \<open>option\<close>: \<open>None\<close> when the pointer is
  null or the assertion fails. \<open>NormalizedName\<close> and \<open>NormalizedMetaName\<close> take the
  name of the definition. The model ends at \<^verbatim>\<open>GenEnum\<close> and \<^verbatim>\<open>GenStruct\<close>, which
  produce the text of one definition; writing that text to a file (\<^verbatim>\<open>SaveType\<close>,
  \<^verbatim>\<open>BeginFile\<close>, \<^verbatim>\<open>generate\<close>) is not modelled.
\<close>

abbreviation Indent :: string where "Indent \<equiv> ''    ''"
abbreviation Comment :: string where "Comment \<equiv> ''-- ''"
abbreviation End :: string where "End \<equiv> ''end\<newline>''"
abbreviation EndFunc :: string where "EndFunc \<equiv> ''end\<newline>''"
abbreviation SelfData :: string where "SelfData \<equiv> ''self.view''"
abbreviation SelfDataPos :: string where "SelfDataPos \<equiv> ''self.view.pos''"
abbreviation SelfDataBytes :: string where "SelfDataBytes \<equiv> ''self.view.bytes''"
abbreviation quot :: string where "quot \<equiv> [CHR 0x27]"

definition OffsetPrefix :: "helpers \<Rightarrow> FieldDef \<Rightarrow> string" where
  "OffsetPrefix h field =
     Indent @ ''local o = '' @ SelfData @ '':Offset('' @ NumToString h (value_offset field)
     @ '')\<newline>'' @ Indent @ ''if o ~= 0 then\<newline>''"

definition GenReceiver :: "StructDef \<Rightarrow> string" where
  "GenReceiver sd = ''function '' @ NormalizedMetaName (struct_name sd) @ '':''"

subsection \<open>Type names\<close>

definition GenTypeBasic :: "helpers \<Rightarrow> Type \<Rightarrow> string" where
  "GenTypeBasic h t = ctypename h (base_type t)"

text \<open>
  \<^verbatim>\<open>GenTypePointer\<close> and \<^verbatim>\<open>GenTypeGet\<close> call each other through the element type of
  a vector, whose own element tag is NONE: the nesting is at most two deep.
\<close>

definition vector_depth :: "Type \<Rightarrow> nat" where
  "vector_depth t =
     (if base_type t = BASE_TYPE_VECTOR then (if element t = BASE_TYPE_VECTOR then 2 else 1)
      else 0)"

function GenTypeGet :: "helpers \<Rightarrow> Type \<Rightarrow> string option"
  and GenTypePointer :: "helpers \<Rightarrow> Type \<Rightarrow> string option" where
  "GenTypeGet h t =
     (if IsScalar (base_type t) then Some (GenTypeBasic h t) else GenTypePointer h t)"
| "GenTypePointer h t =
     (if base_type t = BASE_TYPE_STRING then Some ''string''
      else if base_type t = BASE_TYPE_VECTOR then GenTypeGet h (VectorType t)
      else if base_type t = BASE_TYPE_STRUCT
        then (case struct_def t of None \<Rightarrow> None | Some sd \<Rightarrow> Some (struct_name sd))
      else Some ''*flatbuffers.Table'')"
  by pat_completeness auto
termination
  by (relation "measure (\<lambda>x. case x of Inl (h, t) \<Rightarrow> 2 * vector_depth t + 1
                                     | Inr (h, t) \<Rightarrow> 2 * vector_depth t)")
     (auto simp: vector_depth_def VectorType_def)

function GenGetter :: "helpers \<Rightarrow> Type \<Rightarrow> string option" where
  "GenGetter h t =
     (if base_type t = BASE_TYPE_STRING then Some (SelfData @ '':String('')
      else if base_type t = BASE_TYPE_UNION then Some (SelfData @ '':Union('')
      else if base_type t = BASE_TYPE_VECTOR then GenGetter h (VectorType t)
      else (case GenTypeGet h t of None \<Rightarrow> None
            | Some n \<Rightarrow> Some (SelfData @ '':Get(flatbuffers.N.'' @ MakeCamel h n True @ '', '')))"
  by pat_completeness auto
termination
  by (relation "measure (\<lambda>(h, t). vector_depth t)") (auto simp: vector_depth_def VectorType_def)

definition GenMethod :: "helpers \<Rightarrow> FieldDef \<Rightarrow> string option" where
  "GenMethod h field =
     (if IsScalar (base_type (value_type field))
      then Some (MakeCamel h (GenTypeBasic h (value_type field)) True)
      else (case IsStruct (value_type field) of None \<Rightarrow> None
            | Some b \<Rightarrow> Some (if b then ''Struct'' else ''UOffsetTRelative'')))"

definition GetNamespace :: "helpers \<Rightarrow> Type \<Rightarrow> string" where
  "GetNamespace h t =
     (case struct_def t of
        Some sd \<Rightarrow> GetFullyQualifiedName h (struct_namespace sd) (struct_name sd)
      | None \<Rightarrow>
          (case enum_def t of
             Some ed \<Rightarrow> GetFullyQualifiedName h (enum_namespace ed) (enum_name ed)
           | None \<Rightarrow> []))"

definition TypeName :: "helpers \<Rightarrow> FieldDef \<Rightarrow> string option" where
  "TypeName h field = GenTypeGet h (value_type field)"

definition TypeNameWithNamespace :: "helpers \<Rightarrow> FieldDef \<Rightarrow> string" where
  "TypeNameWithNamespace h field = GetNamespace h (value_type field)"

subsection \<open>Accessors\<close>

definition GetVectorLen :: "helpers \<Rightarrow> StructDef \<Rightarrow> FieldDef \<Rightarrow> string" where
  "GetVectorLen h sd field =
     GenReceiver sd @ MakeCamel h (NormalizedName (field_name field)) True @ ''Length()\<newline>''
     @ OffsetPrefix h field
     @ Indent @ Indent @ ''return '' @ SelfData @ '':VectorLen(o)\<newline>''
     @ Indent @ End
     @ Indent @ ''return 0\<newline>''
     @ EndFunc"

definition GetScalarFieldOfStruct :: "helpers \<Rightarrow> StructDef \<Rightarrow> FieldDef \<Rightarrow> string option" where
  "GetScalarFieldOfStruct h sd field = do {
     getter \<leftarrow> GenGetter h (value_type field);
     Some (GenReceiver sd @ MakeCamel h (NormalizedName (field_name field)) True
       @ ''()\<newline>''
       @ Indent @ ''return '' @ getter
       @ SelfDataPos @ '' + '' @ NumToString h (value_offset field) @ '')\<newline>''
       @ EndFunc)
   }"

definition GetScalarFieldOfTable :: "helpers \<Rightarrow> StructDef \<Rightarrow> FieldDef \<Rightarrow> string option" where
  "GetScalarFieldOfTable h sd field = do {
     getter0 \<leftarrow> GenGetter h (value_type field);
     let getter1 = getter0 @ ''o + '' @ SelfDataPos @ '')'';
         is_bool = (base_type (value_type field) = BASE_TYPE_BOOL);
         getter = (if is_bool then ''('' @ getter1 @ '' ~= 0)'' else getter1);
         default_value =
           (if is_bool then (if value_constant field = ''0'' then ''false'' else ''true'')
            else value_constant field)
     in Some (GenReceiver sd @ MakeCamel h (NormalizedName (field_name field)) True
       @ ''()\<newline>''
       @ OffsetPrefix h field
       @ Indent @ Indent @ ''return '' @ getter @ ''\<newline>''
       @ Indent @ End
       @ Indent @ ''return '' @ default_value @ ''\<newline>''
       @ EndFunc)
   }"

definition GetStructFieldOfStruct :: "helpers \<Rightarrow> StructDef \<Rightarrow> FieldDef \<Rightarrow> string" where
  "GetStructFieldOfStruct h sd field =
     GenReceiver sd @ MakeCamel h (NormalizedName (field_name field)) True
     @ ''(obj)\<newline>''
     @ Indent @ ''obj:Init('' @ SelfDataBytes @ '', '' @ SelfDataPos @ '' + ''
     @ NumToString h (value_offset field) @ '')\<newline>''
     @ Indent @ ''return obj\<newline>''
     @ EndFunc"

definition GetStructFieldOfTable :: "helpers \<Rightarrow> StructDef \<Rightarrow> FieldDef \<Rightarrow> string option" where
  "GetStructFieldOfTable h sd field = do {
     target \<leftarrow> struct_def (value_type field);
     Some (GenReceiver sd @ MakeCamel h (NormalizedName (field_name field)) True
       @ ''()\<newline>''
       @ OffsetPrefix h field
       @ (if fixed target
          then Indent @ Indent @ ''local x = o + '' @ SelfDataPos @ ''\<newline>''
          else Indent @ Indent @ ''local x = '' @ SelfData @ '':Indirect(o + '' @ SelfDataPos
               @ '')\<newline>'')
       @ Indent @ Indent @ ''local obj = require('' @ quot @ TypeNameWithNamespace h field
       @ quot @ '').New()\<newline>''
       @ Indent @ Indent @ ''obj:Init('' @ SelfDataBytes @ '', x)\<newline>''
       @ Indent @ Indent @ ''return obj\<newline>''
       @ Indent @ End
       @ EndFunc)
   }"

definition GetStringField :: "helpers \<Rightarrow> StructDef \<Rightarrow> FieldDef \<Rightarrow> string option" where
  "GetStringField h sd field = do {
     getter \<leftarrow> GenGetter h (value_type field);
     Some (GenReceiver sd @ MakeCamel h (NormalizedName (field_name field)) True
       @ ''()\<newline>''
       @ OffsetPrefix h field
       @ Indent @ Indent @ ''return '' @ getter
       @ ''o + '' @ SelfDataPos @ '')\<newline>''
       @ Indent @ End
       @ EndFunc)
   }"

definition GetUnionField :: "helpers \<Rightarrow> StructDef \<Rightarrow> FieldDef \<Rightarrow> string option" where
  "GetUnionField h sd field = do {
     getter \<leftarrow> GenGetter h (value_type field);
     Some (GenReceiver sd @ MakeCamel h (NormalizedName (field_name field)) True @ ''()\<newline>''
       @ OffsetPrefix h field
       @ Indent @ Indent
       @ ''local obj = flatbuffers.view.New(require('' @ quot @ ''flatbuffers.binaryarray''
       @ quot @ '').New(0), 0)\<newline>''
       @ Indent @ Indent @ getter @ ''obj, o)\<newline>''
       @ Indent @ Indent @ ''return obj\<newline>''
       @ Indent @ End
       @ EndFunc)
   }"

definition GetMemberOfVectorOfStruct :: "helpers \<Rightarrow> StructDef \<Rightarrow> FieldDef \<Rightarrow> string option" where
  "GetMemberOfVectorOfStruct h sd field = do {
     let vectortype = VectorType (value_type field);
     target \<leftarrow> struct_def vectortype;
     Some (GenReceiver sd @ MakeCamel h (NormalizedName (field_name field)) True
       @ ''(j)\<newline>''
       @ OffsetPrefix h field
       @ Indent @ Indent @ ''local x = '' @ SelfData @ '':Vector(o)\<newline>''
       @ Indent @ Indent @ ''x = x + ((j-1) * ''
       @ NumToString h (InlineSize h vectortype) @ '')\<newline>''
       @ (if \<not> fixed target
          then Indent @ Indent @ ''x = '' @ SelfData @ '':Indirect(x)\<newline>'' else [])
       @ Indent @ Indent @ ''local obj = require('' @ quot @ TypeNameWithNamespace h field
       @ quot @ '').New()\<newline>''
       @ Indent @ Indent @ ''obj:Init('' @ SelfDataBytes @ '', x)\<newline>''
       @ Indent @ Indent @ ''return obj\<newline>''
       @ Indent @ End
       @ EndFunc)
   }"

definition GetMemberOfVectorOfNonStruct :: "helpers \<Rightarrow> StructDef \<Rightarrow> FieldDef \<Rightarrow> string option" where
  "GetMemberOfVectorOfNonStruct h sd field = do {
     let vectortype = VectorType (value_type field);
     getter \<leftarrow> GenGetter h (value_type field);
     Some (GenReceiver sd @ MakeCamel h (NormalizedName (field_name field)) True
       @ ''(j)\<newline>''
       @ OffsetPrefix h field
       @ Indent @ Indent @ ''local a = '' @ SelfData @ '':Vector(o)\<newline>''
       @ Indent @ Indent
       @ ''return '' @ getter
       @ ''a + ((j-1) * ''
       @ NumToString h (InlineSize h vectortype) @ ''))\<newline>''
       @ Indent @ End
       @ (if base_type vectortype = BASE_TYPE_STRING
          then Indent @ ''return '' @ quot @ quot @ ''\<newline>''
          else Indent @ ''return 0\<newline>'')
       @ EndFunc)
   }"

definition GenStructAccessor :: "helpers \<Rightarrow> StructDef \<Rightarrow> FieldDef \<Rightarrow> string option" where
  "GenStructAccessor h sd field = do {
     accessor \<leftarrow>
       (if IsScalar (base_type (value_type field)) then
          (if fixed sd then GetScalarFieldOfStruct h sd field
           else GetScalarFieldOfTable h sd field)
        else if base_type (value_type field) = BASE_TYPE_STRUCT then
          (if fixed sd then Some (GetStructFieldOfStruct h sd field)
           else GetStructFieldOfTable h sd field)
        else if base_type (value_type field) = BASE_TYPE_STRING then
          GetStringField h sd field
        else if base_type (value_type field) = BASE_TYPE_VECTOR then
          (let vectortype = VectorType (value_type field)
           in if base_type vectortype = BASE_TYPE_STRUCT
              then GetMemberOfVectorOfStruct h sd field
              else GetMemberOfVectorOfNonStruct h sd field)
        else if base_type (value_type field) = BASE_TYPE_UNION then
          GetUnionField h sd field
        else None);
     Some (GenComment h (field_doc_comment field) [] @ accessor
       @ (if base_type (value_type field) = BASE_TYPE_VECTOR
          then GetVectorLen h sd field else []))
   }"

subsection \<open>Builders\<close>

definition BeginBuilderArgs :: "StructDef \<Rightarrow> string" where
  "BeginBuilderArgs sd =
     ''function '' @ NormalizedName (struct_name sd) @ ''.Create''
     @ NormalizedName (struct_name sd)
     @ ''(builder''"

lemma struct_def_size:
  "struct_def (value_type field) = Some sd \<Longrightarrow> size sd < size field"
  by (cases field; cases "value_type field") auto

lemma fields_size: "size_list size (fields sd) < size sd"
  by (cases sd) auto

text \<open>
  The loop of \<^verbatim>\<open>StructBuilderArgs\<close> runs over the fields from first to last; the
  recursion on the list of fields is that loop.
\<close>

function StructBuilderArgs :: "helpers \<Rightarrow> StructDef \<Rightarrow> string \<Rightarrow> string option"
  and StructBuilderArgs_fields :: "helpers \<Rightarrow> FieldDef list \<Rightarrow> string \<Rightarrow> string option" where
  "StructBuilderArgs h sd nameprefix = StructBuilderArgs_fields h (fields sd) nameprefix"
| "StructBuilderArgs_fields h [] nameprefix = Some []"
| "StructBuilderArgs_fields h (field # rest) nameprefix =
     (case IsStruct (value_type field) of
        None \<Rightarrow> None
      | Some nested \<Rightarrow>
          (case (if nested
                 then (case struct_def (value_type field) of
                         None \<Rightarrow> None
                       | Some sd \<Rightarrow>
                           StructBuilderArgs h sd
                             (nameprefix @ (NormalizedName (field_name field) @ ''_'')))
                 else Some ('', '' @ nameprefix
                            @ MakeCamel h (NormalizedName (field_name field)) False)) of
             None \<Rightarrow> None
           | Some args \<Rightarrow>
               (case StructBuilderArgs_fields h rest nameprefix of
                  None \<Rightarrow> None
                | Some others \<Rightarrow> Some (args @ others))))"
  by pat_completeness auto
termination
  by (relation "measure (\<lambda>x. case x of Inl (h, sd, p) \<Rightarrow> size sd
                                     | Inr (h, fs, p) \<Rightarrow> size_list size fs)")
     (auto simp: fields_size dest: struct_def_size)

definition EndBuilderArgs :: string where
  "EndBuilderArgs = '')\<newline>''"

text \<open>
  The loop of \<^verbatim>\<open>StructBuilderBody\<close> runs over the fields from last to first
  (\<^verbatim>\<open>rbegin\<close> to \<^verbatim>\<open>rend\<close>): the statements of the fields after a field are
  appended before that field's own.
\<close>

function StructBuilderBody :: "helpers \<Rightarrow> StructDef \<Rightarrow> string \<Rightarrow> string option"
  and StructBuilderBody_fields :: "helpers \<Rightarrow> FieldDef list \<Rightarrow> string \<Rightarrow> string option" where
  "StructBuilderBody h sd nameprefix =
     (case StructBuilderBody_fields h (fields sd) nameprefix of
        None \<Rightarrow> None
      | Some body \<Rightarrow>
          Some (Indent @ ''builder:Prep('' @ NumToString h (minalign sd) @ '', ''
                @ NumToString h (bytesize sd) @ '')\<newline>'' @ body))"
| "StructBuilderBody_fields h [] nameprefix = Some []"
| "StructBuilderBody_fields h (field # rest) nameprefix =
     (case StructBuilderBody_fields h rest nameprefix of
        None \<Rightarrow> None
      | Some later \<Rightarrow>
          (case IsStruct (value_type field) of
             None \<Rightarrow> None
           | Some nested \<Rightarrow>
               (case (if nested
                      then (case struct_def (value_type field) of
                              None \<Rightarrow> None
                            | Some sd \<Rightarrow>
                                StructBuilderBody h sd
                                  (nameprefix @ (NormalizedName (field_name field) @ ''_'')))
                      else (case GenMethod h field of
                              None \<Rightarrow> None
                            | Some m \<Rightarrow>
                                Some (Indent @ ''builder:Prepend'' @ m @ ''(''
                                      @ nameprefix
                                      @ MakeCamel h (NormalizedName (field_name field)) False
                                      @ '')\<newline>''))) of
                  None \<Rightarrow> None
                | Some stmt \<Rightarrow>
                    Some (later
                          @ (if padding field \<noteq> 0
                             then Indent @ ''builder:Pad('' @ NumToString h (padding field)
                                  @ '')\<newline>''
                             else [])
                          @ stmt))))"
  by pat_completeness auto
termination
  by (relation "measure (\<lambda>x. case x of Inl (h, sd, p) \<Rightarrow> size sd
                                     | Inr (h, fs, p) \<Rightarrow> size_list size fs)")
     (auto simp: fields_size dest: struct_def_size)

definition EndBuilderBody :: string where
  "EndBuilderBody = Indent @ ''return builder:Offset()\<newline>'' @ EndFunc"

definition GenStructBuilder :: "helpers \<Rightarrow> StructDef \<Rightarrow> string option" where
  "GenStructBuilder h sd = do {
     args \<leftarrow> StructBuilderArgs h sd [];
     body \<leftarrow> StructBuilderBody h sd [];
     Some (BeginBuilderArgs sd @ args @ EndBuilderArgs @ body @ EndBuilderBody)
   }"

definition GetStartOfTable :: "helpers \<Rightarrow> StructDef \<Rightarrow> string" where
  "GetStartOfTable h sd =
     ''function '' @ NormalizedName (struct_name sd) @ ''.Start''
     @ ''(builder) ''
     @ ''builder:StartObject(''
     @ NumToString h (length (fields sd))
     @ '') end\<newline>''"

definition BuildFieldOfTable :: "helpers \<Rightarrow> StructDef \<Rightarrow> FieldDef \<Rightarrow> nat \<Rightarrow> string option" where
  "BuildFieldOfTable h sd field offset = do {
     m \<leftarrow> GenMethod h field;
     Some (''function '' @ NormalizedName (struct_name sd) @ ''.Add''
       @ MakeCamel h (NormalizedName (field_name field)) True
       @ ''(builder, ''
       @ MakeCamel h (NormalizedName (field_name field)) False
       @ '') ''
       @ ''builder:Prepend''
       @ m @ ''Slot(''
       @ NumToString h offset @ '', ''
       @ MakeCamel h (NormalizedName (field_name field)) False
       @ '', '' @ value_constant field
       @ '') end\<newline>'')
   }"

definition BuildVectorOfTable :: "helpers \<Rightarrow> StructDef \<Rightarrow> FieldDef \<Rightarrow> string" where
  "BuildVectorOfTable h sd field =
     (let vector_type = VectorType (value_type field);
          alignment = InlineAlignment h vector_type;
          elem_size = InlineSize h vector_type
      in ''function '' @ NormalizedName (struct_name sd) @ ''.Start''
         @ MakeCamel h (NormalizedName (field_name field)) True
         @ ''Vector(builder, numElems) return builder:StartVector(''
         @ NumToString h elem_size
         @ '', numElems, '' @ NumToString h alignment
         @ '') end\<newline>'')"

definition GetEndOffsetOnTable :: "StructDef \<Rightarrow> string" where
  "GetEndOffsetOnTable sd =
     ''function '' @ NormalizedName (struct_name sd) @ ''.End''
     @ ''(builder) ''
     @ ''return builder:EndObject() end\<newline>''"

text \<open>
  The loop of \<^verbatim>\<open>GenTableBuilders\<close>: \<open>offset\<close> is the position of the iterator
  (\<^verbatim>\<open>it - begin\<close>), which advances over a deprecated field too.
\<close>

fun GenTableBuilders_fields ::
  "helpers \<Rightarrow> StructDef \<Rightarrow> FieldDef list \<Rightarrow> nat \<Rightarrow> string option" where
  "GenTableBuilders_fields h sd [] offset = Some []"
| "GenTableBuilders_fields h sd (field # rest) offset =
     (if deprecated field then GenTableBuilders_fields h sd rest (Suc offset)
      else (case BuildFieldOfTable h sd field offset of
              None \<Rightarrow> None
            | Some add \<Rightarrow>
                (case GenTableBuilders_fields h sd rest (Suc offset) of
                   None \<Rightarrow> None
                 | Some others \<Rightarrow>
                     Some (add
                           @ (if base_type (value_type field) = BASE_TYPE_VECTOR
                              then BuildVectorOfTable h sd field else [])
                           @ others))))"

definition GenTableBuilders :: "helpers \<Rightarrow> StructDef \<Rightarrow> string option" where
  "GenTableBuilders h sd = do {
     adds \<leftarrow> GenTableBuilders_fields h sd (fields sd) 0;
     Some (GetStartOfTable h sd @ adds @ GetEndOffsetOnTable sd)
   }"

subsection \<open>Object API: UnPack and Pack\<close>

text \<open>
  The loops over the fields of a definition skip the deprecated fields and append the
  text of each remaining field in declared order; \<open>for_fields\<close> is that loop, for the
  loop body \<open>body\<close>.
\<close>

fun for_fields :: "(FieldDef \<Rightarrow> string option) \<Rightarrow> FieldDef list \<Rightarrow> string option" where
  "for_fields body [] = Some []"
| "for_fields body (field # rest) =
     (if deprecated field then for_fields body rest
      else (case body field of
              None \<Rightarrow> None
            | Some text \<Rightarrow>
                (case for_fields body rest of
                   None \<Rightarrow> None
                 | Some others \<Rightarrow> Some (text @ others))))"

definition GenUnionUnPack_ObjectAPI :: "EnumDef \<Rightarrow> string \<Rightarrow> bool \<Rightarrow> string" where
  "GenUnionUnPack_ObjectAPI ed camel_name is_vector =
     (let varialbe_name = (if is_vector then ''_o_'' @ camel_name else ''_o.'' @ camel_name);
          type_suffix = (if is_vector then ''(_j)'' else []);
          func_suffix = (if is_vector then ''(_j)'' else ''()'');
          indent = (if is_vector then ''      '' else ''    '');
          enum_def_name = enum_name ed
      in (if is_vector then indent @ ''var '' @ varialbe_name @ '' = ''
          else indent @ varialbe_name @ '' = '')
         @ enum_def_name @ ''.Union()\<newline>''
         @ indent @ varialbe_name @ ''.Type = self:'' @ camel_name @ ''Type''
         @ type_suffix @ ''\<newline>''
         @ indent @ ''local t = '' @ enum_def_name @ ''.__dataTypeToClass[o.''
         @ camel_name @ ''.Type]\<newline>''
         @ indent @ ''if t ~= nil then\<newline>''
         @ indent @ Indent @ ''local d = self:'' @ camel_name @ func_suffix @ ''\<newline>''
         @ indent @ Indent @ ''if d ~= nil then\<newline>''
         @ indent @ Indent @ Indent @ ''if t == string then -- string\<newline>''
         @ indent @ Indent @ Indent @ Indent @ varialbe_name @ ''.Value = d\<newline>''
         @ indent @ Indent @ Indent @ ''else -- table/struct\<newline>''
         @ indent @ Indent @ Indent @ Indent @ ''local v = t.New()\<newline>''
         @ indent @ Indent @ Indent @ Indent @ ''v:Init(d.bytes, d.pos)\<newline>''
         @ indent @ Indent @ Indent @ Indent @ varialbe_name
         @ ''.Value = v:UnPack()\<newline>''
         @ indent @ Indent @ Indent @ ''end\<newline>''
         @ indent @ Indent @ ''end\<newline>''
         @ indent @ ''end\<newline>''
         @ (if is_vector
            then indent @ ''_o.'' @ camel_name @ ''[_j] = '' @ varialbe_name @ ''\<newline>''
            else []))"

text \<open>The body of the loop that emits \<^verbatim>\<open>UnPackTo\<close>.\<close>

definition UnPackTo_field :: "helpers \<Rightarrow> StructDef \<Rightarrow> FieldDef \<Rightarrow> string option" where
  "UnPackTo_field h sd field =
     (let camel_name = MakeCamel h (field_name field) True;
          start = Indent @ ''o.'' @ camel_name @ '' = '';
          t = value_type field
      in if base_type t = BASE_TYPE_STRUCT then
           (case (if fixed sd then map_option fixed (struct_def t) else Some False) of
              None \<Rightarrow> None
            | Some is_fixed \<Rightarrow>
                Some (if is_fixed
                      then start @ ''self:'' @ camel_name @ ''():UnPack();\<newline>''
                      else start @ ''self:'' @ camel_name
                           @ ''() ~= nil and self:'' @ camel_name
                           @ ''():UnPack() or nil\<newline>''))
         else if base_type t = BASE_TYPE_ARRAY then
           (let length_str = NumToString h (fixed_length t)
            in Some (start @ ''{}\<newline>''
                 @ Indent @ ''for _j = 1, '' @ length_str @ ''do\<newline>''
                 @ Indent @ Indent @ ''local item = self:'' @ camel_name @ ''(_j)\<newline>''
                 @ Indent @ Indent @ ''o.'' @ camel_name @ ''[_j] = item''
                 @ (case struct_def t of
                      None \<Rightarrow> []
                    | Some target \<Rightarrow>
                        (if fixed target then '':UnPack()''
                         else ''item ~= nil and item:UnPack() or nil''))
                 @ ''\<newline>''
                 @ Indent @ EndFunc @ ''\<newline>''))
         else if base_type t = BASE_TYPE_VECTOR then
           (case (if element t = BASE_TYPE_UNION then
                    (case enum_def t of
                       None \<Rightarrow> None
                     | Some ed \<Rightarrow>
                         Some (start @ ''{}\<newline>''
                           @ Indent @ ''for j = 1, length do\<newline>''
                           @ GenUnionUnPack_ObjectAPI ed camel_name True
                           @ Indent @ EndFunc @ ''\<newline>''))
                  else if element t \<noteq> BASE_TYPE_UTYPE then
                    (let is_fixed = (struct_def t = None)
                     in Some (start @ ''{}\<newline>''
                          @ Indent @ ''for _j = 1, length do\<newline>''
                          @ Indent @ Indent @ ''local item = self:'' @ camel_name
                          @ ''(_j)\<newline>''
                          @ Indent @ Indent @ ''o.'' @ camel_name @ ''[_j] = ''
                          @ (if \<not> is_fixed then ''item ~= nil and item:UnPack() or nil''
                             else ''item'')
                          @ ''\<newline>''
                          @ Indent @ EndFunc @ ''\<newline>''))
                  else Some []) of
              None \<Rightarrow> None
            | Some loop \<Rightarrow>
                Some (Indent @ ''length = self:'' @ camel_name @ ''Length()\<newline>'' @ loop))
         else if base_type t = BASE_TYPE_UTYPE then Some []
         else if base_type t = BASE_TYPE_UNION then
           (case enum_def t of
              None \<Rightarrow> None
            | Some ed \<Rightarrow> Some (GenUnionUnPack_ObjectAPI ed camel_name False))
         else Some (start @ ''self:'' @ camel_name @ ''()\<newline>''))"

text \<open>
  The body of the first loop of \<^verbatim>\<open>Pack\<close>, which creates the offsets of the
  struct, string, vector and union fields. In the source the VECTOR case has no
  \<^verbatim>\<open>break\<close> and falls into the ARRAY case, which appends nothing.
\<close>

definition Pack_offset_field :: "helpers \<Rightarrow> string \<Rightarrow> FieldDef \<Rightarrow> string option" where
  "Pack_offset_field h class_name field =
     (let camel_name = MakeCamel h (field_name field) True;
          t = value_type field
      in if base_type t = BASE_TYPE_STRUCT then
           (case struct_def t of
              None \<Rightarrow> None
            | Some target \<Rightarrow>
                (if \<not> fixed target then
                   (case GenTypeGet h t of
                      None \<Rightarrow> None
                    | Some n \<Rightarrow>
                        Some (Indent @ ''local _'' @ field_name field @ '' = o.'' @ camel_name
                          @ '' == nil and 0 or '' @ MakeCamel h n True
                          @ ''.Pack(builder, o.'' @ camel_name @ '');\<newline>''))
                 else Some []))
         else if base_type t = BASE_TYPE_STRING then
           Some (Indent @ ''local _'' @ field_name field @ '' = o.'' @ camel_name
             @ '' == nil and 0 or builder:CreateString(o.'' @ camel_name
             @ '')\<newline>'')
         else if base_type t = BASE_TYPE_VECTOR then
           (let length_var = ''__'' @ field_name field @ ''_length''
            in case (if IsScalar (element t) then Some True else IsStruct t) of
                 None \<Rightarrow> None
               | Some inline \<Rightarrow>
                   (case (if inline then
                            (case (if IsScalar (element t)
                                   then Some (''builder:Prepend''
                                              @ MakeCamel h (ctypename h (element t)) True
                                              @ ''(o.'' @ camel_name @ ''[_j])\<newline>'')
                                   else (case GenTypeGet h t of
                                           None \<Rightarrow> None
                                         | Some n \<Rightarrow>
                                             Some (''builder:PrependStruct(''
                                                   @ MakeCamel h n True
                                                   @ ''.Pack(builder, o.'' @ camel_name
                                                   @ ''[_j]))\<newline>''))) of
                               None \<Rightarrow> None
                             | Some prepend \<Rightarrow>
                                 Some (Indent @ Indent @ class_name @ ''.Start''
                                   @ field_name field @ ''Vector(builder, '' @ length_var
                                   @ '')\<newline>''
                                   @ Indent @ Indent @ ''for _j = '' @ length_var
                                   @ '', 1, -1 do\<newline>''
                                   @ Indent @ Indent @ Indent
                                   @ prepend
                                   @ Indent @ Indent @ ''end\<newline>''))
                          else
                            (let offset_array_var = ''__'' @ field_name field @ ''_array''
                             in case (if element t = BASE_TYPE_STRING
                                        then Some ''builder:CreateString(v)\<newline>''
                                      else if element t = BASE_TYPE_STRUCT
                                        then (case GenTypeGet h t of
                                                None \<Rightarrow> None
                                              | Some n \<Rightarrow>
                                                  Some (n @ ''.Pack(builder, v)\<newline>''))
                                      else Some ''**not supported**\<newline>'') of
                                  None \<Rightarrow> None
                                | Some create \<Rightarrow>
                                    Some (Indent @ Indent @ ''local '' @ offset_array_var
                                      @ '' = {}\<newline>''
                                      @ Indent @ Indent @ ''for i, v in ipairs(o.''
                                      @ camel_name @ '') do\<newline>''
                                      @ Indent @ Indent @ Indent @ offset_array_var
                                      @ ''[i] = ''
                                      @ create
                                      @ Indent @ Indent @ ''end\<newline>''
                                      @ Indent @ Indent @ class_name @ ''.Start''
                                      @ field_name field @ ''Vector(builder, '' @ length_var
                                      @ '')\<newline>''
                                      @ Indent @ Indent @ ''for _j = '' @ length_var
                                      @ '', 1, -1 do\<newline>''
                                      @ Indent @ Indent @ Indent
                                      @ ''builder:PrependUOffsetTRelative(''
                                      @ offset_array_var @ ''[_j]))\<newline>''
                                      @ Indent @ Indent @ ''end\<newline>''))) of
                      None \<Rightarrow> None
                    | Some fill \<Rightarrow>
                        Some (Indent @ ''local _'' @ field_name field @ '' = 0\<newline>''
                          @ Indent @ ''if o.'' @ camel_name @ ''~= nil then\<newline>''
                          @ Indent @ Indent @ ''local '' @ length_var @ '' = #o.''
                          @ camel_name @ ''\<newline>''
                          @ fill
                          @ Indent @ Indent @ ''_'' @ field_name field
                          @ '' = builder:EndVector('' @ length_var @ '')\<newline>''
                          @ Indent @ ''end\<newline>\<newline>'')))
         else if base_type t = BASE_TYPE_ARRAY then Some []
         else if base_type t = BASE_TYPE_UNION then
           (case enum_def t of
              None \<Rightarrow> None
            | Some ed \<Rightarrow>
                Some (''    local _'' @ field_name field @ ''_type = o.'' @ camel_name
                  @ '' == null and '' @ WrapInNameSpace h (enum_namespace ed) (enum_name ed)
                  @ ''.NONE or '' @ ''o.'' @ camel_name @ ''.Type\<newline>''
                  @ ''    local _'' @ field_name field @ '' = o.'' @ camel_name
                  @ '' == null and 0 or ''
                  @ WrapInNameSpace h (enum_namespace ed) (enum_name ed) @ ''.Union''
                  @ ''.Pack(builder, o.'' @ camel_name @ '')\<newline>''))
         else Some [])"

text \<open>The body of the loop that lists the arguments of \<^verbatim>\<open>Create\<close>, for a fixed struct.\<close>

definition Pack_create_field :: "helpers \<Rightarrow> FieldDef \<Rightarrow> string option" where
  "Pack_create_field h field =
     (let camel_name = MakeCamel h (field_name field) True;
          t = value_type field
      in case (if base_type t = BASE_TYPE_STRUCT then
                 (case struct_def t of
                    None \<Rightarrow> None
                  | Some target \<Rightarrow>
                      (if fixed target
                       then (case GenTypeGet h t of
                               None \<Rightarrow> None
                             | Some n \<Rightarrow>
                                 Some (n @ ''.Pack(builder, o.'' @ camel_name @ '')''))
                       else Some (''_'' @ field_name field)))
               else if base_type t = BASE_TYPE_STRING \<or> base_type t = BASE_TYPE_ARRAY
                       \<or> base_type t = BASE_TYPE_VECTOR then
                 Some (''_'' @ field_name field)
               else if base_type t = BASE_TYPE_UTYPE then Some []
               else if base_type t = BASE_TYPE_UNION then Some []
               else Some (''o.'' @ camel_name)) of
           None \<Rightarrow> None
         | Some arg \<Rightarrow> Some ('', '' @ arg))"

text \<open>The body of the loop that emits the \<^verbatim>\<open>Add\<close> calls, for a table.\<close>

definition Pack_add_field :: "helpers \<Rightarrow> string \<Rightarrow> FieldDef \<Rightarrow> string option" where
  "Pack_add_field h class_name field =
     (let camel_name = MakeCamel h (field_name field) True;
          t = value_type field
      in if base_type t = BASE_TYPE_STRUCT then
           (case struct_def t of
              None \<Rightarrow> None
            | Some target \<Rightarrow>
                (if fixed target
                 then (case GenTypeGet h t of
                         None \<Rightarrow> None
                       | Some n \<Rightarrow>
                           Some (Indent @ class_name @ ''.Add'' @ camel_name @ ''(builder, ''
                             @ n @ ''.Pack(builder, o.''
                             @ camel_name @ ''))\<newline>''))
                 else Some (Indent @ class_name @ ''.Add'' @ camel_name @ ''(builder, _''
                        @ field_name field @ '')\<newline>'')))
         else if base_type t = BASE_TYPE_STRING \<or> base_type t = BASE_TYPE_ARRAY
                 \<or> base_type t = BASE_TYPE_VECTOR then
           Some (Indent @ class_name @ ''.Add'' @ camel_name @ ''(builder, _''
             @ field_name field @ '')\<newline>'')
         else if base_type t = BASE_TYPE_UTYPE then Some []
         else if base_type t = BASE_TYPE_UNION then
           Some (Indent @ class_name @ ''.Add'' @ camel_name @ ''Type(builder, _''
             @ field_name field @ ''_type)\<newline>''
             @ Indent @ class_name @ ''.Add'' @ camel_name @ ''(builder, _''
             @ field_name field @ '')\<newline>'')
         else Some (Indent @ class_name @ ''.Add'' @ camel_name @ ''(builder, o.''
                @ camel_name @ '')\<newline>''))"

definition GenUnPackPack_ObjectAPI :: "helpers \<Rightarrow> StructDef \<Rightarrow> string option" where
  "GenUnPackPack_ObjectAPI h sd = do {
     let meta_name = NormalizedMetaName (struct_name sd);
     let class_name = NormalizedName (struct_name sd);
     unpack_fields \<leftarrow> for_fields (UnPackTo_field h sd) (fields sd);
     offsets \<leftarrow> for_fields (Pack_offset_field h class_name) (fields sd);
     finish \<leftarrow>
       (if fixed sd then do {
          args \<leftarrow> for_fields (Pack_create_field h) (fields sd);
          Some (Indent @ ''return '' @ class_name @ ''.Create'' @ class_name @ ''(builder''
            @ args
            @ '')\<newline>'')
        } else do {
          adds \<leftarrow> for_fields (Pack_add_field h class_name) (fields sd);
          Some (Indent @ class_name @ ''.Start(builder)\<newline>''
            @ adds
            @ Indent @ ''return '' @ class_name @ ''.End(builder)\<newline>'')
        });
     Some (''\<newline>--Object Base API\<newline>''
       @ ''function '' @ meta_name @ '':UnPack()\<newline>''
       @ ''    local o = '' @ class_name @ ''.T()\<newline>''
       @ ''    self:UnPackTo(o)\<newline>''
       @ ''    return o\<newline>''
       @ ''end\<newline>\<newline>''
       @ ''function '' @ meta_name @ '':UnPackTo(o)\<newline>''
       @ Indent @ ''local length = 0\<newline>''
       @ unpack_fields
       @ ''end\<newline>\<newline>''
       @ ''function '' @ meta_name @ '':Pack(builder, o)\<newline>''
       @ offsets
       @ finish
       @ ''end\<newline>\<newline>'')
   }"

subsection \<open>Object API: the mirror type\<close>

definition GenEnumDefaultValue :: "helpers \<Rightarrow> FieldDef \<Rightarrow> string option" where
  "GenEnumDefaultValue h field =
     (case enum_def (value_type field) of
        None \<Rightarrow> None
      | Some ed \<Rightarrow>
          (case FindByValue h ed (value_constant field) of
             Some enum_val \<Rightarrow>
               Some (WrapInNameSpace h (enum_namespace ed) (enum_name ed) @ ''.''
                     @ val_name enum_val)
           | None \<Rightarrow> Some (value_constant field)))"

definition GenDefaultValue2 :: "helpers \<Rightarrow> FieldDef \<Rightarrow> bool \<Rightarrow> string option" where
  "GenDefaultValue2 h field enableLangOverrides =
     (if enableLangOverrides \<and> enum_def (value_type field) \<noteq> None
         \<and> base_type (value_type field) \<noteq> BASE_TYPE_UNION
      then GenEnumDefaultValue h field
      else (let longSuffix = []
            in if base_type (value_type field) = BASE_TYPE_BOOL
                 then Some (if value_constant field = ''0'' then ''false'' else ''true'')
               else if base_type (value_type field) = BASE_TYPE_ULONG
                 then Some (value_constant field)
               else if base_type (value_type field) = BASE_TYPE_UINT
                       \<or> base_type (value_type field) = BASE_TYPE_LONG
                 then Some (value_constant field @ longSuffix)
               else Some (value_constant field)))"

definition GenDefaultValue :: "helpers \<Rightarrow> FieldDef \<Rightarrow> string option" where
  "GenDefaultValue h field = GenDefaultValue2 h field True"

text \<open>The body of the loop of \<^verbatim>\<open>GenObjectDecl_ObjectAPI\<close>: the switch on the type.\<close>

definition GenObjectDecl_field :: "helpers \<Rightarrow> IDLOptions \<Rightarrow> FieldDef \<Rightarrow> string option" where
  "GenObjectDecl_field h opts field =
     (let camel_name = MakeCamel h (field_name field) True;
          start = Indent @ Indent @ ''this.'' @ camel_name @ '' = '';
          t = value_type field
      in if base_type t = BASE_TYPE_STRUCT then Some (start @ ''nil\<newline>'')
         else if base_type t = BASE_TYPE_STRING
           then Some (start @ [CHR 0x22, CHR 0x22] @ ''\<newline>'')
         else if base_type t = BASE_TYPE_ARRAY \<or> base_type t = BASE_TYPE_VECTOR then
           (if set_empty_vectors_to_null opts then Some (start @ ''nil\<newline>'')
            else Some (start @ ''{}\<newline>''))
         else if base_type t = BASE_TYPE_UTYPE then Some []
         else if base_type t = BASE_TYPE_UNION then
           Some (start @ ''require('' @ quot @ TypeNameWithNamespace h field @ quot
                 @ '').Union()\<newline>'')
         else (case GenDefaultValue h field of
                 None \<Rightarrow> None
               | Some d \<Rightarrow> Some (start @ d @ ''\<newline>'')))"

definition GenObjectDecl_ObjectAPI :: "helpers \<Rightarrow> IDLOptions \<Rightarrow> StructDef \<Rightarrow> string option" where
  "GenObjectDecl_ObjectAPI h opts sd = do {
     let class_name = NormalizedName (struct_name sd);
     inits \<leftarrow> for_fields (GenObjectDecl_field h opts) (fields sd);
     Some (class_name @ ''.T = {\<newline>''
       @ Indent @ ''__ctor__ = function (this)\<newline>''
       @ inits
       @ Indent @ ''end\<newline>''
       @ ''}\<newline>'')
   }"

subsection \<open>Enums\<close>

definition BeginEnum :: "string \<Rightarrow> string" where
  "BeginEnum class_name = ''local '' @ class_name @ '' = {\<newline>''"

definition EnumMember :: "helpers \<Rightarrow> EnumDef \<Rightarrow> EnumVal \<Rightarrow> string" where
  "EnumMember h ed ev =
     Indent @ NormalizedName (val_name ev) @ '' = '' @ EnumToString h ed ev @ '',\<newline>''"

definition EndEnum :: string where
  "EndEnum = ''}\<newline>''"

text \<open>The loop of \<^verbatim>\<open>GenEnumDef_ObjectAPI\<close> over the values of the enum.\<close>

fun dataTypeToClass_entries :: "helpers \<Rightarrow> EnumDef \<Rightarrow> EnumVal list \<Rightarrow> string" where
  "dataTypeToClass_entries h ed [] = []"
| "dataTypeToClass_entries h ed (ev # rest) =
     (if IsZero ev then dataTypeToClass_entries h ed rest
      else (let val = EnumToString h ed ev
            in (if base_type (union_type ev) = BASE_TYPE_STRING
                then ''dataTypeToClass['' @ val @ ''] = string\<newline>''
                else ''dataTypeToClass['' @ val @ ''] = require('' @ quot
                     @ GetNamespace h (union_type ev) @ quot @ '')\<newline>'')
               @ dataTypeToClass_entries h ed rest))"

definition GenEnumDef_ObjectAPI :: "helpers \<Rightarrow> EnumDef \<Rightarrow> string" where
  "GenEnumDef_ObjectAPI h ed =
     (if \<not> is_union ed then []
      else (let enum_name' = MakeCamel h (enum_name ed) True
            in ''local dataTypeToClass = {}\<newline>''
               @ dataTypeToClass_entries h ed (Vals ed)
               @ enum_name' @ ''.__dataTypeToClass = dataTypeToClass\<newline>\<newline>''
               @ enum_name' @ ''.Union = {\<newline>''
               @ [CHR 0x09] @ ''__ctor = function (this)\<newline>''
               @ [CHR 0x09, CHR 0x09] @ ''this.Type = 0\<newline>''
               @ [CHR 0x09, CHR 0x09] @ ''this.Value = nil\<newline>''
               @ [CHR 0x09] @ ''end\<newline>}\<newline>''))"

fun GenEnum_members :: "helpers \<Rightarrow> EnumDef \<Rightarrow> EnumVal list \<Rightarrow> string" where
  "GenEnum_members h ed [] = []"
| "GenEnum_members h ed (ev # rest) =
     GenComment h (val_doc_comment ev) Indent @ EnumMember h ed ev @ GenEnum_members h ed rest"

definition GenEnum :: "helpers \<Rightarrow> IDLOptions \<Rightarrow> EnumDef \<Rightarrow> string" where
  "GenEnum h opts ed =
     (if enum_generated ed then []
      else GenComment h (enum_doc_comment ed) []
           @ BeginEnum (NormalizedName (enum_name ed))
           @ GenEnum_members h ed (Vals ed)
           @ EndEnum
           @ (if generate_object_based_api opts then GenEnumDef_ObjectAPI h ed else []))"

subsection \<open>A struct or a table\<close>

definition BeginClass :: "StructDef \<Rightarrow> string" where
  "BeginClass sd =
     ''local '' @ NormalizedName (struct_name sd) @ '' = {} -- the module\<newline>''
     @ ''local '' @ NormalizedMetaName (struct_name sd)
     @ '' = {} -- the class metatable\<newline>''
     @ ''\<newline>''"

definition GenerateNewObjectPrototype :: "StructDef \<Rightarrow> string" where
  "GenerateNewObjectPrototype sd =
     ''function '' @ NormalizedName (struct_name sd) @ ''.New()\<newline>''
     @ Indent @ ''local o = {}\<newline>''
     @ Indent
     @ ''setmetatable(o, {__index = '' @ NormalizedMetaName (struct_name sd)
     @ ''})\<newline>''
     @ Indent @ ''return o\<newline>''
     @ EndFunc"

definition NewRootTypeFromBuffer :: "StructDef \<Rightarrow> string" where
  "NewRootTypeFromBuffer sd =
     ''function '' @ NormalizedName (struct_name sd) @ ''.GetRootAs''
     @ NormalizedName (struct_name sd) @ ''(buf, offset)\<newline>''
     @ Indent
     @ ''local n = flatbuffers.N.UOffsetT:Unpack(buf, offset)\<newline>''
     @ Indent @ ''local o = '' @ NormalizedName (struct_name sd)
     @ ''.New()\<newline>''
     @ Indent @ ''o:Init(buf, n + offset)\<newline>''
     @ Indent @ ''return o\<newline>''
     @ EndFunc"

definition InitializeExisting :: "StructDef \<Rightarrow> string" where
  "InitializeExisting sd =
     GenReceiver sd
     @ ''Init(buf, pos)\<newline>''
     @ Indent @ SelfData @ '' = flatbuffers.view.New(buf, pos)\<newline>''
     @ EndFunc"

definition GenStruct :: "helpers \<Rightarrow> IDLOptions \<Rightarrow> StructDef \<Rightarrow> string option" where
  "GenStruct h opts sd =
     (if struct_generated sd then Some []
      else do {
        accessors \<leftarrow> for_fields (GenStructAccessor h sd) (fields sd);
        builders \<leftarrow> (if fixed sd then GenStructBuilder h sd else GenTableBuilders h sd);
        object_api \<leftarrow>
          (if generate_object_based_api opts then do {
             packers \<leftarrow> GenUnPackPack_ObjectAPI h sd;
             mirror \<leftarrow> GenObjectDecl_ObjectAPI h opts sd;
             Some (packers @ mirror)
           } else Some []);
        Some (GenComment h (struct_doc_comment sd) []
          @ BeginClass sd
          @ GenerateNewObjectPrototype sd
          @ (if \<not> fixed sd then NewRootTypeFromBuffer sd else [])
          @ InitializeExisting sd
          @ accessors
          @ builders
          @ object_api)
      })"

section \<open>Reading the generated code\<close>

text \<open>
  The claims about an accessor are about what the generated Lua function returns. The
  generated accessors have one shape: a header line, statements indented by one
  \<open>Indent\<close>, at most one block guarded by the presence test \<^verbatim>\<open>if o ~= 0 then\<close> whose
  statements are indented by two, and the closing \<^verbatim>\<open>end\<close>. \<open>run_accessor\<close> runs
  such a function. The buffer is abstracted to its vtable \<open>vt\<close>, which tells for the
  argument of \<^verbatim>\<open>self.view:Offset(...)\<close> whether the offset stored there is nonzero;
  a returned expression stays symbolic.
\<close>

text \<open>
  The lines of a text: \<open>lines_from acc s\<close> reads \<open>s\<close> with the current line, reversed,
  in \<open>acc\<close>. A last line without a newline counts when it is not empty.
\<close>

fun lines_from :: "string \<Rightarrow> string \<Rightarrow> string list" where
  "lines_from acc [] = (if acc = [] then [] else [rev acc])"
| "lines_from acc (c # cs) =
     (if c = CHR 0x0A then rev acc # lines_from [] cs else lines_from (c # acc) cs)"

definition split_lines :: "string \<Rightarrow> string list" where
  "split_lines s = lines_from [] s"

fun strip_prefix :: "string \<Rightarrow> string \<Rightarrow> string option" where
  "strip_prefix [] s = Some s"
| "strip_prefix (p # ps) [] = None"
| "strip_prefix (p # ps) (c # cs) = (if p = c then strip_prefix ps cs else None)"

datatype lua_outcome = Returns string | ReturnsNothing | Stuck

datatype position = Top | Guarded | Skipping

text \<open>
  \<open>var\<close> is the local variable \<^verbatim>\<open>o\<close> of the accessor: \<open>None\<close> before its declaration, then
  whether the offset read from the vtable is nonzero.
\<close>

fun run_body :: "(string \<Rightarrow> bool) \<Rightarrow> position \<Rightarrow> bool option \<Rightarrow> string list \<Rightarrow> lua_outcome" where
  "run_body vt pos var [] = Stuck"
| "run_body vt Top var (l # ls) =
     (if l = ''end'' then ReturnsNothing
      else if l = ''    if o ~= 0 then'' then
        (case var of
           None \<Rightarrow> Stuck
         | Some nonzero \<Rightarrow> if nonzero then run_body vt Guarded var ls else run_body vt Skipping var ls)
      else (case strip_prefix ''    return '' l of
              Some e \<Rightarrow> Returns e
            | None \<Rightarrow>
                (case strip_prefix ''    local o = self.view:Offset('' l of
                   Some arg \<Rightarrow>
                     (if arg \<noteq> [] \<and> last arg = CHR '')''
                      then run_body vt Top (Some (vt (butlast arg))) ls else Stuck)
                 | None \<Rightarrow> Stuck)))"
| "run_body vt Guarded var (l # ls) =
     (if l = ''    end'' then run_body vt Top var ls
      else (case strip_prefix ''        return '' l of
              Some e \<Rightarrow> Returns e
            | None \<Rightarrow>
                (if strip_prefix ''        '' l \<noteq> None then run_body vt Guarded var ls else Stuck)))"
| "run_body vt Skipping var (l # ls) =
     (if l = ''    end'' then run_body vt Top var ls
      else if strip_prefix ''        '' l \<noteq> None then run_body vt Skipping var ls else Stuck)"

definition run_accessor :: "(string \<Rightarrow> bool) \<Rightarrow> string \<Rightarrow> lua_outcome" where
  "run_accessor vt code =
     (case split_lines code of
        [] \<Rightarrow> Stuck
      | header # body \<Rightarrow>
          (if strip_prefix ''function '' header \<noteq> None then run_body vt Top None body else Stuck))"

definition one_line :: "string \<Rightarrow> bool" where
  "one_line s = (CHR 0x0A \<notin> set s)"

section \<open>Concrete helper functions and schemas\<close>

text \<open>
  An instance of the helper functions, for running the generator on concrete schemas:
  numbers in decimal, camel case as \<^verbatim>\<open>util.h\<close> makes it (the first character in upper
  case on demand, an underscore dropped and the character after it in upper case), the
  runtime's type names, four-byte elements, dotted namespaces.
\<close>

fun decimal :: "nat \<Rightarrow> string" where
  "decimal n =
     (if n < 10 then [''0123456789'' ! n] else decimal (n div 10) @ [''0123456789'' ! (n mod 10)])"

declare decimal.simps [simp del]

definition decimal_int :: "int \<Rightarrow> string" where
  "decimal_int i = (if i < 0 then ''-'' @ decimal (nat (- i)) else decimal (nat i))"

definition to_upper :: "char \<Rightarrow> char" where
  "to_upper c =
     (case map_of (zip ''abcdefghijklmnopqrstuvwxyz'' ''ABCDEFGHIJKLMNOPQRSTUVWXYZ'') c of
        Some u \<Rightarrow> u | None \<Rightarrow> c)"

fun camel_rest :: "string \<Rightarrow> string" where
  "camel_rest [] = []"
| "camel_rest [c] = [c]"
| "camel_rest (c # d # cs) =
     (if c = CHR ''_'' then to_upper d # camel_rest cs else c # camel_rest (d # cs))"

definition camel :: "string \<Rightarrow> bool \<Rightarrow> string" where
  "camel s first =
     (case s of [] \<Rightarrow> [] | c # cs \<Rightarrow> if first then to_upper c # camel_rest cs else camel_rest s)"

definition ptype :: "BaseType \<Rightarrow> string" where
  "ptype t =
     (if t = BASE_TYPE_BOOL then ''bool''
      else if t = BASE_TYPE_CHAR then ''int8''
      else if t = BASE_TYPE_SHORT then ''int16''
      else if t = BASE_TYPE_USHORT then ''uint16''
      else if t = BASE_TYPE_INT then ''int32''
      else if t = BASE_TYPE_UINT then ''uint32''
      else if t = BASE_TYPE_LONG then ''int64''
      else if t = BASE_TYPE_ULONG then ''uint64''
      else if t = BASE_TYPE_FLOAT then ''float32''
      else if t = BASE_TYPE_DOUBLE then ''float64''
      else ''uint8'')"

fun dotted :: "Namespace \<Rightarrow> string \<Rightarrow> string" where
  "dotted [] name = name"
| "dotted (c # cs) name = c @ ''.'' @ dotted cs name"

definition comment_lines :: "string list \<Rightarrow> string \<Rightarrow> string" where
  "comment_lines dc prefix = concat (map (\<lambda>l. prefix @ ''--'' @ l @ ''\<newline>'') dc)"

definition lua_helpers :: helpers where
  "lua_helpers =
     Helpers decimal camel ptype (\<lambda>t. 4) (\<lambda>t. 4) comment_lines dotted dotted
       (\<lambda>ed ev. decimal_int (val_value ev))
       (\<lambda>ed c. find (\<lambda>ev. decimal_int (val_value ev) = c) (Vals ed))"

definition scalar_type :: "BaseType \<Rightarrow> Type" where
  "scalar_type t = Type t BASE_TYPE_NONE None None 0"

text \<open>\<^verbatim>\<open>table Monster { hp:int = 100; name:string; }\<close>\<close>

definition hp_field :: FieldDef where
  "hp_field = FieldDef ''hp'' [] (scalar_type BASE_TYPE_INT) ''100'' 4 False 0"

definition name_field :: FieldDef where
  "name_field = FieldDef ''name'' [] (scalar_type BASE_TYPE_STRING) ''0'' 6 False 0"

definition Monster :: StructDef where
  "Monster = StructDef ''Monster'' [] [] False [hp_field, name_field] 1 0 False"

definition empty_vtable :: "string \<Rightarrow> bool" where
  "empty_vtable slot = False"

definition full_vtable :: "string \<Rightarrow> bool" where
  "full_vtable slot = True"

text \<open>\<^verbatim>\<open>table Pet { friendly:bool = false; }\<close>\<close>

definition friendly_field :: FieldDef where
  "friendly_field = FieldDef ''friendly'' [] (scalar_type BASE_TYPE_BOOL) ''0'' 4 False 0"

definition Pet :: StructDef where
  "Pet = StructDef ''Pet'' [] [] False [friendly_field] 1 0 False"

text \<open>
  The \<^verbatim>\<open>Add\<close> functions in a generated text: the lines that begin with
  \<^verbatim>\<open>function <class>.Add\<close>. \<open>builder_summary\<close> is the first line of the text, which
  is the \<^verbatim>\<open>Start\<close> function of the builders of a table, and the number of \<^verbatim>\<open>Add\<close>
  functions.
\<close>

definition Add_functions :: "string \<Rightarrow> string \<Rightarrow> string list" where
  "Add_functions class_name code =
     [l \<leftarrow> split_lines code. strip_prefix (''function '' @ class_name @ ''.Add'') l \<noteq> None]"

definition builder_summary :: "string \<Rightarrow> string \<Rightarrow> string \<times> nat" where
  "builder_summary class_name code =
     (case split_lines code of
        [] \<Rightarrow> ([], 0)
      | first # rest \<Rightarrow> (first, length (Add_functions class_name code)))"

text \<open>A text is terminated when it is empty or ends with a newline.\<close>

definition terminated :: "string \<Rightarrow> bool" where
  "terminated s = (s = [] \<or> last s = CHR 0x0A)"

text \<open>
  The names and numbers that go into the \<^verbatim>\<open>Add\<close> function of a field at position
  \<open>i\<close>, and into its vector starter, contain no newline.
\<close>

definition builder_lines_ok :: "helpers \<Rightarrow> FieldDef \<Rightarrow> nat \<Rightarrow> bool" where
  "builder_lines_ok h field i =
     (one_line (MakeCamel h (NormalizedName (field_name field)) True)
      \<and> one_line (MakeCamel h (NormalizedName (field_name field)) False)
      \<and> one_line (value_constant field)
      \<and> one_line (NumToString h i)
      \<and> (IsScalar (base_type (value_type field)) \<longrightarrow>
           one_line (MakeCamel h (GenTypeBasic h (value_type field)) True))
      \<and> (base_type (value_type field) = BASE_TYPE_VECTOR \<longrightarrow>
           one_line (NumToString h (InlineSize h (VectorType (value_type field))))
           \<and> one_line (NumToString h (InlineAlignment h (VectorType (value_type field))))))"

text \<open>\<^verbatim>\<open>table OldMonster { hp:int = 100; mana:int = 150 (deprecated); name:string; }\<close>\<close>

definition mana_field :: FieldDef where
  "mana_field = FieldDef ''mana'' [] (scalar_type BASE_TYPE_INT) ''150'' 6 True 0"

definition old_name_field :: FieldDef where
  "old_name_field = FieldDef ''name'' [] (scalar_type BASE_TYPE_STRING) ''0'' 8 False 0"

definition OldMonster :: StructDef where
  "OldMonster =
     StructDef ''OldMonster'' [] [] False [hp_field, mana_field, old_name_field] 1 0 False"

definition object_api_options :: IDLOptions where
  "object_api_options = \<lparr>generate_object_based_api = True, set_empty_vectors_to_null = False\<rparr>"

text \<open>\<^verbatim>\<open>struct Vec3 { x:float; y:float; z:float; }\<close>\<close>

definition Vec3 :: StructDef where
  "Vec3 =
     StructDef ''Vec3'' [] [] True
       [FieldDef ''x'' [] (scalar_type BASE_TYPE_FLOAT) ''0.0'' 0 False 0,
        FieldDef ''y'' [] (scalar_type BASE_TYPE_FLOAT) ''0.0'' 4 False 0,
        FieldDef ''z'' [] (scalar_type BASE_TYPE_FLOAT) ''0.0'' 8 False 0] 4 12 False"

text \<open>\<^verbatim>\<open>union Any { Monster, Pet }\<close>\<close>

definition Any :: EnumDef where
  "Any =
     EnumDef ''Any'' [] [] True
       [EnumVal ''NONE'' [] 0 (scalar_type BASE_TYPE_NONE),
        EnumVal ''Monster'' [] 1 (Type BASE_TYPE_STRUCT BASE_TYPE_NONE (Some Monster) None 0),
        EnumVal ''Pet'' [] 2 (Type BASE_TYPE_STRUCT BASE_TYPE_NONE (Some Pet) None 0)] False"

text \<open>\<^verbatim>\<open>table Holder { pos:Vec3; friend:Monster; item:Any; }\<close>\<close>

definition pos_field :: FieldDef where
  "pos_field =
     FieldDef ''pos'' [] (Type BASE_TYPE_STRUCT BASE_TYPE_NONE (Some Vec3) None 0) ''0'' 4 False 0"

definition friend_field :: FieldDef where
  "friend_field =
     FieldDef ''friend'' [] (Type BASE_TYPE_STRUCT BASE_TYPE_NONE (Some Monster) None 0) ''0'' 6
       False 0"

definition item_type_field :: FieldDef where
  "item_type_field =
     FieldDef ''item_type'' [] (Type BASE_TYPE_UTYPE BASE_TYPE_NONE None (Some Any) 0) ''0'' 8
       False 0"

definition item_field :: FieldDef where
  "item_field =
     FieldDef ''item'' [] (Type BASE_TYPE_UNION BASE_TYPE_NONE None (Some Any) 0) ''0'' 10
       False 0"

definition Holder :: StructDef where
  "Holder =
     StructDef ''Holder'' [] [] False [pos_field, friend_field, item_type_field, item_field]
       1 0 False"

definition pointers_set :: "Type \<Rightarrow> bool" where
  "pointers_set t =
     ((base_type t = BASE_TYPE_STRUCT \<longrightarrow> struct_def t \<noteq> None)
      \<and> (base_type t = BASE_TYPE_VECTOR \<and> element t = BASE_TYPE_STRUCT \<longrightarrow> struct_def t \<noteq> None)
      \<and> (base_type t = BASE_TYPE_UNION \<or> base_type t = BASE_TYPE_VECTOR \<and> element t = BASE_TYPE_UNION
           \<longrightarrow> enum_def t \<noteq> None))"

text \<open>\<^verbatim>\<open>table Bag { items:[Any]; }\<close>\<close>

definition items_type_field :: FieldDef where
  "items_type_field =
     FieldDef ''items_type'' [] (Type BASE_TYPE_VECTOR BASE_TYPE_UTYPE None (Some Any) 0) ''0'' 4
       False 0"

definition items_field :: FieldDef where
  "items_field =
     FieldDef ''items'' [] (Type BASE_TYPE_VECTOR BASE_TYPE_UNION None (Some Any) 0) ''0'' 6
       False 0"

definition Bag :: StructDef where
  "Bag = StructDef ''Bag'' [] [] False [items_type_field, items_field] 1 0 False"

text \<open>\<^verbatim>\<open>struct Line { start:Vec3; end:Vec3; }\<close>\<close>

definition Line :: StructDef where
  "Line =
     StructDef ''Line'' [] [] True
       [FieldDef ''start'' [] (Type BASE_TYPE_STRUCT BASE_TYPE_NONE (Some Vec3) None 0) ''0'' 0
          False 0,
        FieldDef ''end'' [] (Type BASE_TYPE_STRUCT BASE_TYPE_NONE (Some Vec3) None 0) ''0'' 12
          False 0] 4 24 False"

text \<open>\<^verbatim>\<open>struct Test { a:short; b:byte; }\<close>, one byte of padding after \<^verbatim>\<open>b\<close>\<close>

definition Test :: StructDef where
  "Test =
     StructDef ''Test'' [] [] True
       [FieldDef ''a'' [] (scalar_type BASE_TYPE_SHORT) ''0'' 0 False 0,
        FieldDef ''b'' [] (scalar_type BASE_TYPE_CHAR) ''0'' 2 False 1] 2 4 False"

text \<open>
  The struct builder according to the spec, to compare the generator with. A field is
  laid out inline when its type is tagged STRUCT and refers to a fixed struct.
  \<open>inline_structs_defined\<close>: every STRUCT type in the struct, and in the structs nested in
  it, has its definition. \<open>spec_leaf_fields\<close>: the leaf fields in declared order, each with
  the prefix made of the escaped names of the fields above it, an underscore after each.
  \<open>spec_builder_statements\<close>: the statements of the body, \<^verbatim>\<open>Prep\<close> for the struct and
  then the fields in reverse declared order, \<^verbatim>\<open>Pad\<close> before a field with padding.
\<close>

lemma nested_struct_size:
  "field \<in> set (fields sd) \<Longrightarrow> struct_def (value_type field) = Some s \<Longrightarrow> size s < size sd"
proof -
  assume f: "field \<in> set (fields sd)" and s: "struct_def (value_type field) = Some s"
  from f have "size field \<le> size_list size (fields sd)"
    by (simp add: size_list_estimation')
  with struct_def_size [OF s] fields_size [of sd] show ?thesis by simp
qed

function inline_structs_defined :: "StructDef \<Rightarrow> bool" where
  "inline_structs_defined sd =
     (\<forall>field \<in> set (fields sd).
        case struct_def (value_type field) of
          None \<Rightarrow> base_type (value_type field) \<noteq> BASE_TYPE_STRUCT
        | Some s \<Rightarrow>
            (if base_type (value_type field) = BASE_TYPE_STRUCT \<and> fixed s
             then inline_structs_defined s else True))"
  by pat_completeness auto
termination
  by (relation "measure size") (auto dest: nested_struct_size)

function spec_leaf_fields :: "StructDef \<Rightarrow> string \<Rightarrow> (string \<times> FieldDef) list" where
  "spec_leaf_fields sd prefix =
     concat (map
       (\<lambda>field.
          case struct_def (value_type field) of
            None \<Rightarrow> [(prefix, field)]
          | Some s \<Rightarrow>
              (if base_type (value_type field) = BASE_TYPE_STRUCT \<and> fixed s
               then spec_leaf_fields s (prefix @ NormalizedName (field_name field) @ ''_'')
               else [(prefix, field)]))
       (fields sd))"
  by pat_completeness auto
termination
  by (relation "measure (\<lambda>(sd, p). size sd)") (auto dest: nested_struct_size)

datatype builder_stmt = Prep nat nat | Pad nat | Prepend string string

definition spec_method :: "helpers \<Rightarrow> FieldDef \<Rightarrow> string" where
  "spec_method h field =
     (if IsScalar (base_type (value_type field))
      then MakeCamel h (GenTypeBasic h (value_type field)) True
      else ''UOffsetTRelative'')"

definition spec_parameter :: "helpers \<Rightarrow> string \<times> FieldDef \<Rightarrow> string" where
  "spec_parameter h leaf =
     fst leaf @ MakeCamel h (NormalizedName (field_name (snd leaf))) False"

function spec_builder_statements :: "helpers \<Rightarrow> StructDef \<Rightarrow> string \<Rightarrow> builder_stmt list" where
  "spec_builder_statements h sd prefix =
     Prep (minalign sd) (bytesize sd)
     # concat (map
         (\<lambda>field.
            (if padding field \<noteq> 0 then [Pad (padding field)] else [])
            @ (case struct_def (value_type field) of
                 None \<Rightarrow> [Prepend (spec_method h field) (spec_parameter h (prefix, field))]
               | Some s \<Rightarrow>
                   (if base_type (value_type field) = BASE_TYPE_STRUCT \<and> fixed s
                    then spec_builder_statements h s
                           (prefix @ NormalizedName (field_name field) @ ''_'')
                    else [Prepend (spec_method h field) (spec_parameter h (prefix, field))])))
         (rev (fields sd)))"
  by pat_completeness auto
termination
  by (relation "measure (\<lambda>(h, sd, p). size sd)") (auto dest: nested_struct_size)

fun render :: "helpers \<Rightarrow> builder_stmt \<Rightarrow> string" where
  "render h (Prep a b) =
     Indent @ ''builder:Prep('' @ NumToString h a @ '', '' @ NumToString h b @ '')\<newline>''"
| "render h (Pad n) = Indent @ ''builder:Pad('' @ NumToString h n @ '')\<newline>''"
| "render h (Prepend m arg) = Indent @ ''builder:Prepend'' @ m @ ''('' @ arg @ '')\<newline>''"

fun is_Prepend :: "builder_stmt \<Rightarrow> bool" where
  "is_Prepend (Prepend m arg) = True"
| "is_Prepend s = False"

abbreviation field_statements :: "helpers \<Rightarrow> string \<Rightarrow> FieldDef \<Rightarrow> builder_stmt list" where
  "field_statements h p field \<equiv>
     (if padding field \<noteq> 0 then [Pad (padding field)] else [])
     @ (case struct_def (value_type field) of
          None \<Rightarrow> [Prepend (spec_method h field) (spec_parameter h (p, field))]
        | Some s \<Rightarrow>
            (if base_type (value_type field) = BASE_TYPE_STRUCT \<and> fixed s
             then spec_builder_statements h s (p @ NormalizedName (field_name field) @ ''_'')
             else [Prepend (spec_method h field) (spec_parameter h (p, field))]))"

text \<open>
  What a returned expression is worth in Lua, for the expressions a default can be:
  \<^verbatim>\<open>nil\<close>, \<^verbatim>\<open>true\<close> and \<^verbatim>\<open>false\<close> are constants; a decimal numeral (digits, then
  optionally a point and digits) is the number it writes, kept here as its text; a name
  that is not a reserved word is a global variable and is worth what \<open>globals\<close> holds
  for it; a minus sign in front negates a number and is an error on anything else. The
  result \<open>None\<close> is an error, or an expression this reading does not cover.
  \<open>unset_globals\<close> is the environment in which no such variable was assigned: every
  name reads as \<^verbatim>\<open>nil\<close>.
\<close>

datatype lua_value = LuaNil | LuaBoolean bool | LuaNumber string

definition is_digit :: "char \<Rightarrow> bool" where
  "is_digit c = (c \<in> set ''0123456789'')"

definition is_name_char :: "char \<Rightarrow> bool" where
  "is_name_char c =
     (c \<in> set ''abcdefghijklmnopqrstuvwxyzABCDEFGHIJKLMNOPQRSTUVWXYZ_'' \<or> is_digit c)"

definition lua_name :: "string \<Rightarrow> bool" where
  "lua_name s =
     (case s of
        [] \<Rightarrow> False
      | c # cs \<Rightarrow> is_name_char c \<and> \<not> is_digit c \<and> list_all is_name_char cs
                 \<and> s \<notin> set lua_keywords)"

definition decimal_numeral :: "string \<Rightarrow> bool" where
  "decimal_numeral s =
     (takeWhile is_digit s \<noteq> []
      \<and> (case dropWhile is_digit s of
            [] \<Rightarrow> True
          | c # fraction \<Rightarrow> c = CHR ''.'' \<and> list_all is_digit fraction))"

fun eval_expr :: "(string \<Rightarrow> lua_value) \<Rightarrow> string \<Rightarrow> lua_value option" where
  "eval_expr globals [] = None"
| "eval_expr globals (c # cs) =
     (if c = CHR ''-'' then
        (case eval_expr globals cs of
           Some (LuaNumber n) \<Rightarrow>
             (if decimal_numeral n then Some (LuaNumber (CHR ''-'' # n)) else None)
         | _ \<Rightarrow> None)
      else if c # cs = ''nil'' then Some LuaNil
      else if c # cs = ''true'' then Some (LuaBoolean True)
      else if c # cs = ''false'' then Some (LuaBoolean False)
      else if decimal_numeral (c # cs) then Some (LuaNumber (c # cs))
      else if lua_name (c # cs) then Some (globals (c # cs))
      else None)"

definition unset_globals :: "string \<Rightarrow> lua_value" where
  "unset_globals name = LuaNil"

text \<open>\<^verbatim>\<open>table Racer { speed:float = inf; drag:float = -inf; }\<close>\<close>

definition speed_field :: FieldDef where
  "speed_field = FieldDef ''speed'' [] (scalar_type BASE_TYPE_FLOAT) ''inf'' 4 False 0"

definition drag_field :: FieldDef where
  "drag_field = FieldDef ''drag'' [] (scalar_type BASE_TYPE_FLOAT) ''-inf'' 6 False 0"

definition Racer :: StructDef where
  "Racer = StructDef ''Racer'' [] [] False [speed_field, drag_field] 1 0 False"

section \<open>Properties\<close>

declare GenGetter.simps [simp del] GenTypeGet.simps [simp del] GenTypePointer.simps [simp del]
declare StructBuilderArgs.simps [simp del] StructBuilderBody.simps [simp del]

lemmas sample_defs =
  lua_helpers_def Monster_def hp_field_def name_field_def scalar_type_def
  Pet_def friendly_field_def empty_vtable_def full_vtable_def
  NormalizedName_def EscapeKeyword_def lua_keywords_def one_line_def camel_def to_upper_def
  decimal.simps IsScalar_def GenTypeBasic_def ptype_def comment_lines_def

subsection \<open>Reserved words\<close>

lemma escaped_not_keyword: "CHR ''_'' # n \<notin> set lua_keywords"
  by (simp add: lua_keywords_def)

text \<open>
  Claim C8, as the code has it. Escaping is idempotent; a name that is not reserved is
  returned unchanged; a reserved word gets an underscore in front, which makes it a
  different name that is not reserved. The escaped form of a reserved word \<open>k\<close> is
  the escape result of exactly one name that is not reserved, the name \<open>_k\<close>.
\<close>

theorem EscapeKeyword_properties:
  "EscapeKeyword (EscapeKeyword n) = EscapeKeyword n
   \<and> (n \<notin> set lua_keywords \<longrightarrow> EscapeKeyword n = n)
   \<and> (n \<in> set lua_keywords \<longrightarrow>
        EscapeKeyword n = ''_'' @ n \<and> EscapeKeyword n \<noteq> n
        \<and> EscapeKeyword n \<notin> set lua_keywords)
   \<and> (k \<in> set lua_keywords \<and> m \<notin> set lua_keywords \<longrightarrow>
        (EscapeKeyword k = EscapeKeyword m \<longleftrightarrow> m = ''_'' @ k))"
  using escaped_not_keyword [of n] escaped_not_keyword [of k]
  by (auto simp add: EscapeKeyword_def)

theorem EscapeKeyword_properties_witness:
  "''hp'' \<notin> set lua_keywords \<and> EscapeKeyword ''hp'' = ''hp''
   \<and> ''end'' \<in> set lua_keywords \<and> EscapeKeyword ''end'' = ''_end''
   \<and> ''_end'' \<notin> set lua_keywords
   \<and> EscapeKeyword ''end'' = EscapeKeyword ''_end''
   \<and> EscapeKeyword ''end'' \<noteq> EscapeKeyword ''hp''"
proof -
  have 1: "''hp'' \<notin> set lua_keywords" by (simp add: lua_keywords_def)
  have 2: "''end'' \<in> set lua_keywords" by (simp add: lua_keywords_def)
  have 3: "''_end'' \<notin> set lua_keywords" by (simp add: lua_keywords_def)
  from EscapeKeyword_properties [of "''hp''" "''end''" "''_end''"]
       EscapeKeyword_properties [of "''end''" "''end''" "''hp''"] 1 2 3
  show ?thesis by simp
qed

text \<open>
  Claim C8 as stated fails: the reserved word \<^verbatim>\<open>end\<close> and the identifier
  \<^verbatim>\<open>_end\<close>, which is not reserved, have the same escape result.
\<close>

theorem EscapeKeyword_collision_counterexample:
  "''end'' \<in> set lua_keywords \<and> ''_end'' \<notin> set lua_keywords
   \<and> ''end'' \<noteq> ''_end'' \<and> EscapeKeyword ''end'' = EscapeKeyword ''_end''"
  by (simp add: EscapeKeyword_def lua_keywords_def)

subsection \<open>Accessors\<close>

lemma one_line_EscapeKeyword: "one_line n \<Longrightarrow> one_line (EscapeKeyword n)"
  by (simp add: EscapeKeyword_def one_line_def)

lemma lines_from_append:
  "one_line a \<Longrightarrow> lines_from acc (a @ b) = lines_from (rev a @ acc) b"
  by (induction a arbitrary: acc) (auto simp: one_line_def)

lemma GenGetter_scalar:
  "IsScalar (base_type t) \<Longrightarrow>
   GenGetter h t =
     Some (''self.view:Get(flatbuffers.N.'' @ MakeCamel h (GenTypeBasic h t) True @ '', '')"
  by (subst GenGetter.simps) (auto simp: IsScalar_def GenTypeGet.simps)

lemma GenGetter_string:
  "base_type t = BASE_TYPE_STRING \<Longrightarrow> GenGetter h t = Some ''self.view:String(''"
  by (subst GenGetter.simps) simp

lemma GenGetter_vector_of_string:
  "base_type t = BASE_TYPE_VECTOR \<Longrightarrow> element t = BASE_TYPE_STRING \<Longrightarrow>
   GenGetter h t = Some ''self.view:String(''"
  by (subst GenGetter.simps) (simp add: GenGetter_string VectorType_def)

lemmas accessor_text =
  GetScalarFieldOfTable_def GetScalarFieldOfStruct_def GetStringField_def
  GetMemberOfVectorOfNonStruct_def GenReceiver_def NormalizedMetaName_def OffsetPrefix_def
  run_accessor_def split_lines_def lines_from_append one_line_EscapeKeyword Let_def

text \<open>
  The element accessor of a vector of strings is the accessor that returns the
  empty-string sentinel when the vector is absent.
\<close>

lemma vector_of_string_accessor:
  assumes "base_type (value_type field) = BASE_TYPE_VECTOR"
    and "element (value_type field) = BASE_TYPE_STRING"
    and "one_line (struct_name sd)"
    and "one_line (MakeCamel h (NormalizedName (field_name field)) True)"
    and "one_line (NumToString h (value_offset field))"
    and "one_line (NumToString h (InlineSize h (VectorType (value_type field))))"
  shows "map_option (run_accessor vt) (GetMemberOfVectorOfNonStruct h sd field) =
           Some (if vt (NumToString h (value_offset field))
                 then Returns (''self.view:String(a + ((j-1) * ''
                        @ NumToString h (InlineSize h (VectorType (value_type field)))
                        @ ''))'')
                 else Returns (quot @ quot))"
proof -
  have "base_type (VectorType (value_type field)) = BASE_TYPE_STRING"
    using assms(2) by (simp add: VectorType_def)
  then show ?thesis
    using assms by (simp add: accessor_text GenGetter_vector_of_string)
qed

text \<open>
  Claim C1, as the code has it. For a string field the generator emits
  \<^verbatim>\<open>GetStringField\<close>. The accessor reads the field's vtable offset and tests it; when
  the offset is nonzero it returns the decoded string, and when it is zero it runs no
  decode and returns no value (Lua's nil): there is no statement after the guarded
  block.
\<close>

theorem string_accessor_absent_returns_nothing:
  assumes "base_type (value_type field) = BASE_TYPE_STRING"
    and "one_line (struct_name sd)"
    and "one_line (MakeCamel h (NormalizedName (field_name field)) True)"
    and "one_line (NumToString h (value_offset field))"
  shows "GenStructAccessor h sd field =
           map_option ((@) (GenComment h (field_doc_comment field) []))
             (GetStringField h sd field)
         \<and> map_option (run_accessor vt) (GetStringField h sd field) =
             Some (if vt (NumToString h (value_offset field))
                   then Returns ''self.view:String(o + self.view.pos)''
                   else ReturnsNothing)"
proof
  show "GenStructAccessor h sd field =
      map_option ((@) (GenComment h (field_doc_comment field) [])) (GetStringField h sd field)"
    using assms(1)
    by (cases "GetStringField h sd field") (simp_all add: GenStructAccessor_def IsScalar_def)
  show "map_option (run_accessor vt) (GetStringField h sd field) =
      Some (if vt (NumToString h (value_offset field))
            then Returns ''self.view:String(o + self.view.pos)'' else ReturnsNothing)"
    using assms by (simp add: accessor_text GenGetter_string)
qed

theorem string_accessor_absent_returns_nothing_witness:
  "base_type (value_type name_field) = BASE_TYPE_STRING
   \<and> map_option (run_accessor empty_vtable) (GetStringField lua_helpers Monster name_field)
       = Some ReturnsNothing
   \<and> map_option (run_accessor full_vtable) (GetStringField lua_helpers Monster name_field)
       = Some (Returns ''self.view:String(o + self.view.pos)'')"
proof -
  have 1: "base_type (value_type name_field) = BASE_TYPE_STRING" by (simp add: sample_defs)
  have 2: "one_line (struct_name Monster)" by (simp add: sample_defs)
  have 3: "one_line (MakeCamel lua_helpers (NormalizedName (field_name name_field)) True)"
    by (simp add: sample_defs)
  have 4: "one_line (NumToString lua_helpers (value_offset name_field))"
    by (simp add: sample_defs)
  from string_accessor_absent_returns_nothing [where vt = empty_vtable, OF 1 2 3 4]
       string_accessor_absent_returns_nothing [where vt = full_vtable, OF 1 2 3 4] 1
  show ?thesis by (simp add: empty_vtable_def full_vtable_def)
qed

text \<open>
  Claim C1 as stated fails on \<^verbatim>\<open>table Monster { hp:int = 100; name:string; }\<close>: with
  \<^verbatim>\<open>name\<close> absent, the generated \<^verbatim>\<open>Name()\<close> returns no value, not the empty string.
\<close>

theorem string_accessor_sentinel_counterexample:
  "base_type (value_type name_field) = BASE_TYPE_STRING \<and> \<not> deprecated name_field
   \<and> \<not> fixed Monster \<and> name_field \<in> set (fields Monster)
   \<and> map_option (run_accessor empty_vtable)
         (GenStructAccessor lua_helpers Monster name_field) = Some ReturnsNothing
   \<and> map_option (run_accessor empty_vtable)
         (GenStructAccessor lua_helpers Monster name_field) \<noteq> Some (Returns (quot @ quot))"
  by (simp add: sample_defs GenStructAccessor_def GetStringField_def GenGetter_string
        GenReceiver_def NormalizedMetaName_def OffsetPrefix_def run_accessor_def split_lines_def)

text \<open>
  Claim C5, as the code has it. For a scalar field of a table the generator emits
  \<^verbatim>\<open>GetScalarFieldOfTable\<close>. When the vtable offset of the field is zero, the accessor
  returns the expression whose text is the schema's constant, copied as it stands: the
  generator does not render the constant as a Lua literal, so what is returned is the
  default only when that text is a Lua literal for it. For a bool field the returned
  text is the literal \<^verbatim>\<open>false\<close> when the constant is the string \<^verbatim>\<open>0\<close> and \<^verbatim>\<open>true\<close>
  otherwise.
\<close>

theorem scalar_accessor_returns_default:
  assumes "IsScalar (base_type (value_type field))" and "\<not> fixed sd"
    and "one_line (struct_name sd)"
    and "one_line (MakeCamel h (NormalizedName (field_name field)) True)"
    and "one_line (NumToString h (value_offset field))"
    and "one_line (MakeCamel h (GenTypeBasic h (value_type field)) True)"
    and "one_line (value_constant field)"
    and "\<not> vt (NumToString h (value_offset field))"
  shows "GenStructAccessor h sd field =
           map_option ((@) (GenComment h (field_doc_comment field) []))
             (GetScalarFieldOfTable h sd field)
         \<and> map_option (run_accessor vt) (GetScalarFieldOfTable h sd field) =
           Some (Returns
             (if base_type (value_type field) = BASE_TYPE_BOOL
              then (if value_constant field = ''0'' then ''false'' else ''true'')
              else value_constant field))"
proof
  have "base_type (value_type field) \<noteq> BASE_TYPE_VECTOR"
    using assms(1) by (auto simp: IsScalar_def)
  then show "GenStructAccessor h sd field =
      map_option ((@) (GenComment h (field_doc_comment field) []))
        (GetScalarFieldOfTable h sd field)"
    using assms(1,2)
    by (cases "GetScalarFieldOfTable h sd field") (simp_all add: GenStructAccessor_def)
next
  show "map_option (run_accessor vt) (GetScalarFieldOfTable h sd field) =
      Some (Returns
        (if base_type (value_type field) = BASE_TYPE_BOOL
         then (if value_constant field = ''0'' then ''false'' else ''true'')
         else value_constant field))"
    using assms by (simp add: accessor_text GenGetter_scalar)
qed

theorem scalar_accessor_returns_default_witness:
  "IsScalar (base_type (value_type hp_field)) \<and> \<not> fixed Monster
   \<and> map_option (run_accessor empty_vtable) (GetScalarFieldOfTable lua_helpers Monster hp_field)
       = Some (Returns ''100'')"
proof -
  have 1: "IsScalar (base_type (value_type hp_field))" by (simp add: sample_defs)
  have 2: "\<not> fixed Monster" by (simp add: sample_defs)
  have 3: "one_line (struct_name Monster)" by (simp add: sample_defs)
  have 4: "one_line (MakeCamel lua_helpers (NormalizedName (field_name hp_field)) True)"
    by (simp add: sample_defs)
  have 5: "one_line (NumToString lua_helpers (value_offset hp_field))"
    by (simp add: sample_defs)
  have 6: "one_line (MakeCamel lua_helpers (GenTypeBasic lua_helpers (value_type hp_field)) True)"
    by (simp add: sample_defs)
  have 7: "one_line (value_constant hp_field)" by (simp add: sample_defs)
  have 8: "\<not> empty_vtable (NumToString lua_helpers (value_offset hp_field))"
    by (simp add: empty_vtable_def)
  from scalar_accessor_returns_default [where vt = empty_vtable, OF 1 2 3 4 5 6 7 8] 1 2
  show ?thesis by (simp add: hp_field_def scalar_type_def)
qed

text \<open>
  Claim C5 as stated fails on \<^verbatim>\<open>table Racer { speed:float = inf; drag:float = -inf; }\<close>:
  with \<^verbatim>\<open>speed\<close> absent, the generated \<^verbatim>\<open>Speed()\<close> runs \<^verbatim>\<open>return inf\<close>, where
  \<^verbatim>\<open>inf\<close> is not a numeral but the name of a global variable, which reads as
  \<^verbatim>\<open>nil\<close> unless the program assigned it: the accessor does not return the default
  infinity. With \<^verbatim>\<open>drag\<close> absent, \<^verbatim>\<open>Drag()\<close> runs \<^verbatim>\<open>return -inf\<close>, the negation of
  that variable, which is an error.
\<close>

theorem scalar_accessor_default_text_counterexample:
  "base_type (value_type speed_field) = BASE_TYPE_FLOAT
   \<and> IsScalar (base_type (value_type speed_field)) \<and> \<not> deprecated speed_field
   \<and> speed_field \<in> set (fields Racer) \<and> drag_field \<in> set (fields Racer) \<and> \<not> fixed Racer
   \<and> map_option (run_accessor empty_vtable)
         (GenStructAccessor lua_helpers Racer speed_field) = Some (Returns ''inf'')
   \<and> lua_name ''inf'' \<and> \<not> decimal_numeral ''inf''
   \<and> eval_expr unset_globals ''inf'' = Some LuaNil
   \<and> map_option (run_accessor empty_vtable)
         (GenStructAccessor lua_helpers Racer drag_field) = Some (Returns ''-inf'')
   \<and> eval_expr unset_globals ''-inf'' = None"
  by code_simp

text \<open>
  Claim C10. For a bool field the generator emits \<^verbatim>\<open>GetScalarFieldOfTable\<close> in a
  table and \<^verbatim>\<open>GetScalarFieldOfStruct\<close> in a fixed struct. In a table, when the field
  is present, the accessor returns the comparison of the stored value with zero. In a
  fixed struct the accessor returns the stored value as it is read, with no comparison.
\<close>

theorem bool_accessor_compares_with_zero:
  assumes "base_type (value_type field) = BASE_TYPE_BOOL"
    and "one_line (struct_name sd)"
    and "one_line (MakeCamel h (NormalizedName (field_name field)) True)"
    and "one_line (NumToString h (value_offset field))"
    and "one_line (MakeCamel h (ctypename h BASE_TYPE_BOOL) True)"
    and "one_line (value_constant field)"
  shows "GenStructAccessor h sd field =
           map_option ((@) (GenComment h (field_doc_comment field) []))
             (if fixed sd then GetScalarFieldOfStruct h sd field
              else GetScalarFieldOfTable h sd field)
         \<and> (vt (NumToString h (value_offset field)) \<longrightarrow>
              map_option (run_accessor vt) (GetScalarFieldOfTable h sd field) =
                Some (Returns (''(self.view:Get(flatbuffers.N.''
                  @ MakeCamel h (ctypename h BASE_TYPE_BOOL) True
                  @ '', o + self.view.pos) ~= 0)'')))
         \<and> map_option (run_accessor vt) (GetScalarFieldOfStruct h sd field) =
              Some (Returns (''self.view:Get(flatbuffers.N.''
                @ MakeCamel h (ctypename h BASE_TYPE_BOOL) True
                @ '', self.view.pos + '' @ NumToString h (value_offset field) @ '')''))"
proof -
  have sc: "IsScalar (base_type (value_type field))"
    using assms(1) by (simp add: IsScalar_def)
  have tb: "GenTypeBasic h (value_type field) = ctypename h BASE_TYPE_BOOL"
    using assms(1) by (simp add: GenTypeBasic_def)
  have 1: "GenStructAccessor h sd field =
           map_option ((@) (GenComment h (field_doc_comment field) []))
             (if fixed sd then GetScalarFieldOfStruct h sd field
              else GetScalarFieldOfTable h sd field)"
    using assms(1) sc
    by (cases "GetScalarFieldOfTable h sd field"; cases "GetScalarFieldOfStruct h sd field")
       (simp_all add: GenStructAccessor_def)
  have 2: "vt (NumToString h (value_offset field)) \<longrightarrow>
              map_option (run_accessor vt) (GetScalarFieldOfTable h sd field) =
                Some (Returns (''(self.view:Get(flatbuffers.N.''
                  @ MakeCamel h (ctypename h BASE_TYPE_BOOL) True
                  @ '', o + self.view.pos) ~= 0)''))"
    using assms by (simp add: accessor_text GenGetter_scalar [OF sc] tb)
  have 3: "map_option (run_accessor vt) (GetScalarFieldOfStruct h sd field) =
              Some (Returns (''self.view:Get(flatbuffers.N.''
                @ MakeCamel h (ctypename h BASE_TYPE_BOOL) True
                @ '', self.view.pos + '' @ NumToString h (value_offset field) @ '')''))"
    using assms by (simp add: accessor_text GenGetter_scalar [OF sc] tb)
  from 1 2 3 show ?thesis by blast
qed

theorem bool_accessor_compares_with_zero_witness:
  "base_type (value_type friendly_field) = BASE_TYPE_BOOL
   \<and> full_vtable (NumToString lua_helpers (value_offset friendly_field))
   \<and> map_option (run_accessor full_vtable)
        (GetScalarFieldOfTable lua_helpers Pet friendly_field) =
       Some (Returns ''(self.view:Get(flatbuffers.N.Bool, o + self.view.pos) ~= 0)'')
   \<and> map_option (run_accessor full_vtable)
        (GetScalarFieldOfStruct lua_helpers Pet friendly_field) =
       Some (Returns ''self.view:Get(flatbuffers.N.Bool, self.view.pos + 4)'')"
proof -
  have 1: "base_type (value_type friendly_field) = BASE_TYPE_BOOL" by (simp add: sample_defs)
  have 2: "one_line (struct_name Pet)" by (simp add: sample_defs)
  have 3: "one_line (MakeCamel lua_helpers (NormalizedName (field_name friendly_field)) True)"
    by (simp add: sample_defs)
  have 4: "one_line (NumToString lua_helpers (value_offset friendly_field))"
    by (simp add: sample_defs)
  have 5: "one_line (MakeCamel lua_helpers (ctypename lua_helpers BASE_TYPE_BOOL) True)"
    by (simp add: sample_defs)
  have 6: "one_line (value_constant friendly_field)" by (simp add: sample_defs)
  have 7: "full_vtable (NumToString lua_helpers (value_offset friendly_field))"
    by (simp add: full_vtable_def)
  from bool_accessor_compares_with_zero [where vt = full_vtable, OF 1 2 3 4 5 6] 1 7
  show ?thesis by (simp add: sample_defs)
qed

subsection \<open>Table builders\<close>

lemma map_option_append_Nil [simp]: "map_option ((@) []) x = x"
  by (cases x) auto

lemma fields_append:
  "GenTableBuilders_fields h sd (xs @ ys) k =
     (case GenTableBuilders_fields h sd xs k of
        None \<Rightarrow> None
      | Some a \<Rightarrow> map_option ((@) a) (GenTableBuilders_fields h sd ys (k + length xs)))"
  by (induction xs arbitrary: k) (auto split: option.splits)

lemma fields_enumerate:
  "GenTableBuilders_fields h sd fs k =
     map_option concat (those (map
       (\<lambda>(i, field). map_option
          (\<lambda>add. add @ (if base_type (value_type field) = BASE_TYPE_VECTOR
                          then BuildVectorOfTable h sd field else []))
          (BuildFieldOfTable h sd field i))
       [(i, field) \<leftarrow> enumerate k fs. \<not> deprecated field]))"
  by (induction fs arbitrary: k) (auto split: option.splits)

text \<open>
  Claim C2. \<^verbatim>\<open>Start\<close> declares as many slots as the table has declared fields,
  deprecated ones included. The loop emits, for the fields that are not deprecated and in
  declared order, the \<^verbatim>\<open>Add\<close> function of the field with the position of the field
  in the declared order as its slot. So the text for the fields that were there is the
  same when a field is appended, and the same before and after a field whether that field
  is deprecated or not: the later fields keep the slots that count it.
\<close>

theorem GenTableBuilders_slot_numbers:
  "GetStartOfTable h sd =
     ''function '' @ NormalizedName (struct_name sd) @ ''.Start(builder) builder:StartObject(''
     @ NumToString h (length (fields sd)) @ '') end\<newline>''
   \<and> GenTableBuilders h sd =
       map_option (\<lambda>adds. GetStartOfTable h sd @ adds @ GetEndOffsetOnTable sd)
         (GenTableBuilders_fields h sd (fields sd) 0)
   \<and> GenTableBuilders_fields h sd fs 0 =
       map_option concat (those (map
         (\<lambda>(i, field). map_option
            (\<lambda>add. add @ (if base_type (value_type field) = BASE_TYPE_VECTOR
                            then BuildVectorOfTable h sd field else []))
            (BuildFieldOfTable h sd field i))
         [(i, field) \<leftarrow> enumerate 0 fs. \<not> deprecated field]))
   \<and> GenTableBuilders_fields h sd (fs @ [g]) 0 =
       (case GenTableBuilders_fields h sd fs 0 of
          None \<Rightarrow> None
        | Some adds \<Rightarrow> map_option ((@) adds) (GenTableBuilders_fields h sd [g] (length fs)))
   \<and> (deprecated d \<longrightarrow>
        GenTableBuilders_fields h sd (xs @ d # ys) 0 =
          (case GenTableBuilders_fields h sd xs 0 of
             None \<Rightarrow> None
           | Some before \<Rightarrow>
               map_option ((@) before) (GenTableBuilders_fields h sd ys (Suc (length xs)))))
   \<and> (\<not> deprecated d \<longrightarrow>
        GenTableBuilders_fields h sd (xs @ d # ys) 0 =
          (case GenTableBuilders_fields h sd xs 0 of
             None \<Rightarrow> None
           | Some before \<Rightarrow>
               (case BuildFieldOfTable h sd d (length xs) of
                  None \<Rightarrow> None
                | Some add \<Rightarrow>
                    map_option
                      (\<lambda>after. before @ add
                         @ (if base_type (value_type d) = BASE_TYPE_VECTOR
                            then BuildVectorOfTable h sd d else [])
                         @ after)
                      (GenTableBuilders_fields h sd ys (Suc (length xs))))))"
proof (intro conjI impI)
  show "GetStartOfTable h sd =
     ''function '' @ NormalizedName (struct_name sd) @ ''.Start(builder) builder:StartObject(''
     @ NumToString h (length (fields sd)) @ '') end\<newline>''"
    by (simp add: GetStartOfTable_def)
  show "GenTableBuilders h sd =
       map_option (\<lambda>adds. GetStartOfTable h sd @ adds @ GetEndOffsetOnTable sd)
         (GenTableBuilders_fields h sd (fields sd) 0)"
    by (cases "GenTableBuilders_fields h sd (fields sd) 0") (simp_all add: GenTableBuilders_def)
  show "GenTableBuilders_fields h sd fs 0 =
       map_option concat (those (map
         (\<lambda>(i, field). map_option
            (\<lambda>add. add @ (if base_type (value_type field) = BASE_TYPE_VECTOR
                            then BuildVectorOfTable h sd field else []))
            (BuildFieldOfTable h sd field i))
         [(i, field) \<leftarrow> enumerate 0 fs. \<not> deprecated field]))"
    by (rule fields_enumerate)
  show "GenTableBuilders_fields h sd (fs @ [g]) 0 =
       (case GenTableBuilders_fields h sd fs 0 of
          None \<Rightarrow> None
        | Some adds \<Rightarrow> map_option ((@) adds) (GenTableBuilders_fields h sd [g] (length fs)))"
    by (simp add: fields_append split: option.split)
next
  assume "deprecated d"
  then show "GenTableBuilders_fields h sd (xs @ d # ys) 0 =
          (case GenTableBuilders_fields h sd xs 0 of
             None \<Rightarrow> None
           | Some before \<Rightarrow>
               map_option ((@) before) (GenTableBuilders_fields h sd ys (Suc (length xs))))"
    by (simp add: fields_append split: option.split)
next
  assume "\<not> deprecated d"
  then show "GenTableBuilders_fields h sd (xs @ d # ys) 0 =
          (case GenTableBuilders_fields h sd xs 0 of
             None \<Rightarrow> None
           | Some before \<Rightarrow>
               (case BuildFieldOfTable h sd d (length xs) of
                  None \<Rightarrow> None
                | Some add \<Rightarrow>
                    map_option
                      (\<lambda>after. before @ add
                         @ (if base_type (value_type d) = BASE_TYPE_VECTOR
                            then BuildVectorOfTable h sd d else [])
                         @ after)
                      (GenTableBuilders_fields h sd ys (Suc (length xs)))))"
    by (auto simp add: fields_append split: option.splits)
qed

lemmas builder_defs =
  BuildFieldOfTable_def BuildVectorOfTable_def GenMethod_def GetStartOfTable_def
  GetEndOffsetOnTable_def GenTableBuilders_def mana_field_def old_name_field_def
  OldMonster_def IsStruct_def

theorem GenTableBuilders_slot_numbers_witness:
  "deprecated mana_field \<and> \<not> deprecated hp_field
   \<and> GenTableBuilders_fields lua_helpers OldMonster [hp_field, mana_field, old_name_field] 0 =
       Some (''function OldMonster.AddHp(builder, hp) builder:PrependInt32Slot(0, hp, 100) end\<newline>''
         @ ''function OldMonster.AddName(builder, name) builder:PrependUOffsetTRelativeSlot(2, name, 0) end\<newline>'')
   \<and> GenTableBuilders_fields lua_helpers OldMonster [hp_field] 0 =
       Some ''function OldMonster.AddHp(builder, hp) builder:PrependInt32Slot(0, hp, 100) end\<newline>''"
proof -
  note slots = GenTableBuilders_slot_numbers
    [where h = lua_helpers and sd = OldMonster and fs = "[hp_field, mana_field]"
       and g = old_name_field and xs = "[hp_field]" and d = mana_field
       and ys = "[old_name_field]"]
  note first = GenTableBuilders_slot_numbers
    [where h = lua_helpers and sd = OldMonster and fs = "[]" and g = hp_field
       and xs = "[]" and d = hp_field and ys = "[]"]
  have dep: "deprecated mana_field" by (simp add: mana_field_def)
  have live: "\<not> deprecated hp_field" by (simp add: hp_field_def)
  from first live have hp:
    "GenTableBuilders_fields lua_helpers OldMonster [hp_field] 0 =
       Some ''function OldMonster.AddHp(builder, hp) builder:PrependInt32Slot(0, hp, 100) end\<newline>''"
    by (simp add: sample_defs builder_defs)
  from slots dep have
    "GenTableBuilders_fields lua_helpers OldMonster ([hp_field] @ mana_field # [old_name_field]) 0 =
       (case GenTableBuilders_fields lua_helpers OldMonster [hp_field] 0 of
          None \<Rightarrow> None
        | Some before \<Rightarrow>
            map_option ((@) before)
              (GenTableBuilders_fields lua_helpers OldMonster [old_name_field]
                 (Suc (length [hp_field]))))"
    by blast
  with hp have
    "GenTableBuilders_fields lua_helpers OldMonster [hp_field, mana_field, old_name_field] 0 =
       Some (''function OldMonster.AddHp(builder, hp) builder:PrependInt32Slot(0, hp, 100) end\<newline>''
         @ ''function OldMonster.AddName(builder, name) builder:PrependUOffsetTRelativeSlot(2, name, 0) end\<newline>'')"
    by (simp add: sample_defs builder_defs)
  with hp dep live show ?thesis by blast
qed

lemma lines_from_terminated:
  "a \<noteq> [] \<Longrightarrow> last a = CHR 0x0A \<Longrightarrow> lines_from acc (a @ b) = lines_from acc a @ lines_from [] b"
  by (induction a arbitrary: acc) (auto split: if_splits)

lemma split_lines_terminated:
  "terminated a \<Longrightarrow> split_lines (a @ b) = split_lines a @ split_lines b"
  by (cases "a = []") (simp_all add: terminated_def split_lines_def lines_from_terminated)

lemma terminated_append: "terminated a \<Longrightarrow> terminated b \<Longrightarrow> terminated (a @ b)"
  by (cases "b = []") (auto simp: terminated_def)

lemma strip_prefix_append: "strip_prefix (p @ q) (p @ r) = strip_prefix q r"
  by (induction p) auto

lemma strip_prefix_append_Nil: "strip_prefix p (p @ r) = Some r"
  by (induction p) auto

lemma GenMethod_one_line:
  "GenMethod h field = Some m \<Longrightarrow> builder_lines_ok h field i \<Longrightarrow> one_line m"
  by (auto simp: GenMethod_def builder_lines_ok_def one_line_def split: if_splits option.splits)

lemma Add_functions_append:
  "terminated a \<Longrightarrow> Add_functions n (a @ b) = Add_functions n a @ Add_functions n b"
  by (simp add: Add_functions_def split_lines_terminated)

lemma BuildFieldOfTable_line:
  assumes "GenMethod h field = Some m" and "builder_lines_ok h field i"
    and "one_line (struct_name sd)"
  shows "\<exists>add. BuildFieldOfTable h sd field i = Some add \<and> terminated add
           \<and> length (Add_functions (NormalizedName (struct_name sd)) add) = 1"
proof -
  have m: "one_line m" using assms(1,2) by (rule GenMethod_one_line)
  show ?thesis
    using assms m
    by (simp add: BuildFieldOfTable_def builder_lines_ok_def terminated_def Add_functions_def
          split_lines_def lines_from_append NormalizedName_def one_line_EscapeKeyword
          strip_prefix_append)
qed

lemma BuildVectorOfTable_line:
  assumes "builder_lines_ok h field i" and "base_type (value_type field) = BASE_TYPE_VECTOR"
    and "one_line (struct_name sd)"
  shows "terminated (BuildVectorOfTable h sd field)
         \<and> Add_functions (NormalizedName (struct_name sd)) (BuildVectorOfTable h sd field) = []"
  using assms
  by (simp add: BuildVectorOfTable_def builder_lines_ok_def terminated_def Add_functions_def
        split_lines_def lines_from_append NormalizedName_def one_line_EscapeKeyword
        strip_prefix_append Let_def)

lemma fields_Add_functions:
  assumes "one_line (struct_name sd)"
  shows "\<forall>(i, field) \<in> set (enumerate k fs).
           \<not> deprecated field \<longrightarrow> GenMethod h field \<noteq> None \<and> builder_lines_ok h field i
         \<Longrightarrow> \<exists>adds. GenTableBuilders_fields h sd fs k = Some adds \<and> terminated adds
               \<and> length (Add_functions (NormalizedName (struct_name sd)) adds)
                   = length [field \<leftarrow> fs. \<not> deprecated field]"
proof (induction fs arbitrary: k)
  case Nil
  then show ?case by (simp add: terminated_def Add_functions_def split_lines_def)
next
  case (Cons f fs)
  from Cons.prems have rest:
    "\<forall>(i, field) \<in> set (enumerate (Suc k) fs).
       \<not> deprecated field \<longrightarrow> GenMethod h field \<noteq> None \<and> builder_lines_ok h field i"
    by simp
  from Cons.IH [OF rest] obtain adds where adds:
    "GenTableBuilders_fields h sd fs (Suc k) = Some adds" "terminated adds"
    "length (Add_functions (NormalizedName (struct_name sd)) adds)
       = length [field \<leftarrow> fs. \<not> deprecated field]"
    by blast
  show ?case
  proof (cases "deprecated f")
    case True
    with adds show ?thesis by simp
  next
    case False
    with Cons.prems obtain m where m: "GenMethod h f = Some m" and ok: "builder_lines_ok h f k"
      by auto
    from BuildFieldOfTable_line [OF m ok assms] obtain add where add:
      "BuildFieldOfTable h sd f k = Some add" "terminated add"
      "length (Add_functions (NormalizedName (struct_name sd)) add) = 1"
      by blast
    let ?vec = "if base_type (value_type f) = BASE_TYPE_VECTOR
                then BuildVectorOfTable h sd f else []"
    have vec: "terminated ?vec \<and> Add_functions (NormalizedName (struct_name sd)) ?vec = []"
      using BuildVectorOfTable_line [OF ok _ assms]
      by (auto simp: terminated_def Add_functions_def split_lines_def)
    have "GenTableBuilders_fields h sd (f # fs) k = Some (add @ ?vec @ adds)"
      using False add(1) adds(1) by simp
    moreover have "terminated (add @ ?vec @ adds)"
      using add(2) vec adds(2) by (simp add: terminated_append)
    moreover have "length (Add_functions (NormalizedName (struct_name sd)) (add @ ?vec @ adds))
        = length [field \<leftarrow> f # fs. \<not> deprecated field]"
      using False add(2,3) vec adds(3) by (simp add: Add_functions_append)
    ultimately show ?thesis by blast
  qed
qed

text \<open>
  Claim C3, as the code has it. The generator compares nothing: for every table it emits
  the builders, \<^verbatim>\<open>Start\<close> with the number of declared fields followed by one
  \<^verbatim>\<open>Add\<close> function for each field that is not deprecated, whether the two numbers
  agree or not.
\<close>

theorem GenTableBuilders_emits_without_count_check:
  assumes "one_line (struct_name sd)"
    and "one_line (NumToString h (length (fields sd)))"
    and "\<forall>(i, field) \<in> set (enumerate 0 (fields sd)).
           \<not> deprecated field \<longrightarrow> GenMethod h field \<noteq> None \<and> builder_lines_ok h field i"
  shows "\<exists>code. GenTableBuilders h sd = Some code
           \<and> builder_summary (NormalizedName (struct_name sd)) code =
               (''function '' @ NormalizedName (struct_name sd)
                  @ ''.Start(builder) builder:StartObject(''
                  @ NumToString h (length (fields sd)) @ '') end'',
                length [field \<leftarrow> fields sd. \<not> deprecated field])"
proof -
  let ?n = "NormalizedName (struct_name sd)"
  from fields_Add_functions [OF assms(1) assms(3)] obtain adds where adds:
    "GenTableBuilders_fields h sd (fields sd) 0 = Some adds" "terminated adds"
    "length (Add_functions ?n adds) = length [field \<leftarrow> fields sd. \<not> deprecated field]"
    by blast
  have code: "GenTableBuilders h sd = Some (GetStartOfTable h sd @ adds @ GetEndOffsetOnTable sd)"
    using adds(1) by (simp add: GenTableBuilders_def)
  have start: "terminated (GetStartOfTable h sd)"
    "split_lines (GetStartOfTable h sd) =
       [''function '' @ ?n @ ''.Start(builder) builder:StartObject(''
          @ NumToString h (length (fields sd)) @ '') end'']"
    "Add_functions ?n (GetStartOfTable h sd) = []"
    using assms(1,2)
    by (simp_all add: GetStartOfTable_def terminated_def Add_functions_def split_lines_def
          lines_from_append NormalizedName_def one_line_EscapeKeyword strip_prefix_append)
  have fin: "Add_functions ?n (GetEndOffsetOnTable sd) = []"
    using assms(1)
    by (simp add: GetEndOffsetOnTable_def Add_functions_def split_lines_def
          lines_from_append NormalizedName_def one_line_EscapeKeyword strip_prefix_append)
  have "builder_summary ?n (GetStartOfTable h sd @ adds @ GetEndOffsetOnTable sd) =
      (''function '' @ ?n @ ''.Start(builder) builder:StartObject(''
         @ NumToString h (length (fields sd)) @ '') end'',
       length [field \<leftarrow> fields sd. \<not> deprecated field])"
    using start adds(2,3) fin
    by (simp add: builder_summary_def Add_functions_append split_lines_terminated)
  with code show ?thesis by blast
qed

theorem GenTableBuilders_emits_without_count_check_witness:
  "map_option (builder_summary ''Monster'') (GenTableBuilders lua_helpers Monster) =
     Some (''function Monster.Start(builder) builder:StartObject(2) end'', 2)"
proof -
  have 1: "one_line (struct_name Monster)" by (simp add: sample_defs)
  have 2: "one_line (NumToString lua_helpers (length (fields Monster)))"
    by (simp add: sample_defs)
  have 3: "\<forall>(i, field) \<in> set (enumerate 0 (fields Monster)).
             \<not> deprecated field \<longrightarrow>
             GenMethod lua_helpers field \<noteq> None \<and> builder_lines_ok lua_helpers field i"
    by (simp add: sample_defs builder_defs builder_lines_ok_def)
  from GenTableBuilders_emits_without_count_check [OF 1 2 3]
  show ?thesis by (auto simp add: sample_defs)
qed

text \<open>
  Claim C3 as stated fails on
  \<^verbatim>\<open>table OldMonster { hp:int = 100; mana:int = 150 (deprecated); name:string; }\<close>:
  \<^verbatim>\<open>Start\<close> declares three slots, two \<^verbatim>\<open>Add\<close> functions are emitted, and the
  generator returns the builder code.
\<close>

theorem GenTableBuilders_count_mismatch_counterexample:
  "length (fields OldMonster) = 3
   \<and> GenStruct lua_helpers object_api_options OldMonster \<noteq> None
   \<and> GenTableBuilders lua_helpers OldMonster \<noteq> None
   \<and> map_option (builder_summary ''OldMonster'') (GenTableBuilders lua_helpers OldMonster) =
       Some (''function OldMonster.Start(builder) builder:StartObject(3) end'', 2)"
  by code_simp

subsection \<open>The dispatch table of a union\<close>

lemma dataTypeToClass_entries_filter:
  "dataTypeToClass_entries h ed vals =
     concat (map
       (\<lambda>ev. ''dataTypeToClass['' @ EnumToString h ed ev @ ''] = ''
              @ (if base_type (union_type ev) = BASE_TYPE_STRING then ''string''
                 else ''require('' @ quot @ GetNamespace h (union_type ev) @ quot @ '')'')
              @ ''\<newline>'')
       [ev \<leftarrow> vals. val_value ev \<noteq> 0])"
  by (induction vals) (auto simp: IsZero_def Let_def)

text \<open>
  Claim C9. For a union enum the dispatch table \<^verbatim>\<open>dataTypeToClass\<close> gets one entry for
  each value of the enum that is not zero, in declared order, under the value as key, and
  no entry for a value that is zero.
\<close>

theorem union_dispatch_table_skips_zero:
  assumes "is_union ed"
  shows "GenEnumDef_ObjectAPI h ed =
           ''local dataTypeToClass = {}\<newline>''
           @ concat (map
               (\<lambda>ev. ''dataTypeToClass['' @ EnumToString h ed ev @ ''] = ''
                      @ (if base_type (union_type ev) = BASE_TYPE_STRING then ''string''
                         else ''require('' @ quot @ GetNamespace h (union_type ev) @ quot
                              @ '')'')
                      @ ''\<newline>'')
               [ev \<leftarrow> Vals ed. val_value ev \<noteq> 0])
           @ MakeCamel h (enum_name ed) True @ ''.__dataTypeToClass = dataTypeToClass\<newline>\<newline>''
           @ MakeCamel h (enum_name ed) True @ ''.Union = {\<newline>''
           @ [CHR 0x09] @ ''__ctor = function (this)\<newline>''
           @ [CHR 0x09, CHR 0x09] @ ''this.Type = 0\<newline>''
           @ [CHR 0x09, CHR 0x09] @ ''this.Value = nil\<newline>''
           @ [CHR 0x09] @ ''end\<newline>}\<newline>''"
  using assms by (simp add: GenEnumDef_ObjectAPI_def dataTypeToClass_entries_filter Let_def)

theorem union_dispatch_table_skips_zero_witness:
  "is_union Any \<and> map val_value (Vals Any) = [0, 1, 2]
   \<and> take 4 (split_lines (GenEnumDef_ObjectAPI lua_helpers Any)) =
       [''local dataTypeToClass = {}'',
        ''dataTypeToClass[1] = require('Monster')'',
        ''dataTypeToClass[2] = require('Pet')'',
        ''Any.__dataTypeToClass = dataTypeToClass'']"
proof -
  have u: "is_union Any" by (simp add: Any_def)
  from union_dispatch_table_skips_zero [OF u, of lua_helpers] u
  show ?thesis
    by (simp add: Any_def sample_defs GetNamespace_def decimal_int_def split_lines_def)
qed

subsection \<open>Loops over the fields\<close>

lemma for_fields_those:
  "for_fields body fs = map_option concat (those (map body [f \<leftarrow> fs. \<not> deprecated f]))"
  by (induction fs) (auto split: option.splits)

lemma for_fields_total:
  "\<forall>f \<in> set fs. \<not> deprecated f \<longrightarrow> (\<exists>t. body f = Some t \<and> terminated t)
   \<Longrightarrow> \<exists>out. for_fields body fs = Some out \<and> terminated out"
proof (induction fs)
  case Nil
  then show ?case by (simp add: terminated_def)
next
  case (Cons f fs)
  then obtain out where out: "for_fields body fs = Some out" "terminated out" by auto
  show ?case
  proof (cases "deprecated f")
    case True
    with out show ?thesis by simp
  next
    case False
    with Cons.prems obtain t where "body f = Some t" "terminated t" by auto
    with False out show ?thesis by (simp add: terminated_append)
  qed
qed

lemma for_fields_split:
  "for_fields body fs = Some out \<Longrightarrow> f \<in> set fs \<Longrightarrow> \<not> deprecated f
   \<Longrightarrow> \<forall>g \<in> set fs. \<not> deprecated g \<longrightarrow> (\<forall>t. body g = Some t \<longrightarrow> terminated t)
   \<Longrightarrow> \<exists>before t after. out = before @ t @ after \<and> body f = Some t \<and> terminated before"
proof (induction fs arbitrary: out)
  case Nil
  then show ?case by simp
next
  case (Cons g fs)
  show ?case
  proof (cases "deprecated g")
    case True
    with Cons.prems have "for_fields body fs = Some out" "f \<in> set fs" by auto
    with Cons.IH Cons.prems show ?thesis by auto
  next
    case False
    with Cons.prems(1) obtain t rest where t: "body g = Some t"
      and rest: "for_fields body fs = Some rest" and out: "out = t @ rest"
      by (auto split: option.splits)
    show ?thesis
    proof (cases "f = g")
      case True
      with t out have "out = [] @ t @ rest \<and> body f = Some t \<and> terminated []"
        by (simp add: terminated_def)
      then show ?thesis by blast
    next
      case False
      with Cons.prems have "f \<in> set fs" by simp
      with Cons.IH [OF rest] Cons.prems obtain b u a where
        "rest = b @ u @ a" "body f = Some u" "terminated b" by auto
      moreover have "terminated t" using Cons.prems(4) t \<open>\<not> deprecated g\<close> by simp
      ultimately have "out = (t @ b) @ u @ a \<and> body f = Some u \<and> terminated (t @ b)"
        using out by (simp add: terminated_append)
      then show ?thesis by blast
    qed
  qed
qed

lemma line_member:
  "terminated before \<Longrightarrow> one_line l \<Longrightarrow> l \<in> set (split_lines (before @ l @ CHR 0x0A # after))"
  by (simp add: split_lines_terminated) (simp add: split_lines_def lines_from_append)

subsection \<open>The mirror type\<close>

lemma GenDefaultValue_total: "\<exists>d. GenDefaultValue h f = Some d"
  by (cases "enum_def (value_type f)")
     (simp_all add: GenDefaultValue_def GenDefaultValue2_def GenEnumDefaultValue_def
        split: option.split)

lemma GenObjectDecl_field_total:
  "\<exists>t. GenObjectDecl_field h opts f = Some t \<and> terminated t"
proof -
  from GenDefaultValue_total obtain d where "GenDefaultValue h f = Some d" by blast
  then show ?thesis by (simp add: GenObjectDecl_field_def terminated_def Let_def)
qed

text \<open>
  Claim C6, as the code has it. In the constructor of the mirror type a field whose type
  is a struct or a table is initialized to \<^verbatim>\<open>nil\<close>. A field whose type is a union is
  initialized to a union container made at once, by calling \<^verbatim>\<open>Union()\<close> of the module
  of the union.
\<close>

theorem mirror_constructor_initial_values:
  assumes "field \<in> set (fields sd)" and "\<not> deprecated field"
    and "one_line (MakeCamel h (field_name field) True)"
    and "one_line (TypeNameWithNamespace h field)"
  shows "case GenObjectDecl_ObjectAPI h opts sd of
           None \<Rightarrow> False
         | Some code \<Rightarrow>
             (base_type (value_type field) = BASE_TYPE_STRUCT \<longrightarrow>
                Indent @ Indent @ ''this.'' @ MakeCamel h (field_name field) True @ '' = nil''
                  \<in> set (split_lines code))
             \<and> (base_type (value_type field) = BASE_TYPE_UNION \<longrightarrow>
                Indent @ Indent @ ''this.'' @ MakeCamel h (field_name field) True
                  @ '' = require('' @ quot @ TypeNameWithNamespace h field @ quot @ '').Union()''
                  \<in> set (split_lines code))"
proof -
  let ?body = "GenObjectDecl_field h opts"
  let ?start = "Indent @ Indent @ ''this.'' @ MakeCamel h (field_name field) True"
  have tot: "\<forall>f \<in> set (fields sd). \<not> deprecated f \<longrightarrow> (\<exists>t. ?body f = Some t \<and> terminated t)"
    using GenObjectDecl_field_total by blast
  from for_fields_total [OF tot] obtain inits where inits:
    "for_fields ?body (fields sd) = Some inits" by blast
  have ends: "\<forall>g \<in> set (fields sd). \<not> deprecated g \<longrightarrow>
      (\<forall>t. ?body g = Some t \<longrightarrow> terminated t)"
  proof (intro ballI allI impI)
    fix g t assume "?body g = Some t"
    with GenObjectDecl_field_total [of h opts g] show "terminated t" by auto
  qed
  from for_fields_split [OF inits assms(1,2) ends] obtain before t after where parts:
    "inits = before @ t @ after" "?body field = Some t" "terminated before" by blast
  let ?head = "NormalizedName (struct_name sd) @ ''.T = {\<newline>''
               @ Indent @ ''__ctor__ = function (this)\<newline>''"
  let ?tail = "Indent @ ''end\<newline>'' @ ''}\<newline>''"
  let ?code = "?head @ inits @ ?tail"
  have code: "GenObjectDecl_ObjectAPI h opts sd = Some ?code"
    using inits by (simp add: GenObjectDecl_ObjectAPI_def)
  have "terminated ?head" by (simp add: terminated_def)
  from terminated_append [OF this parts(3)] have head: "terminated (?head @ before)" .
  have line: "t = l @ ''\<newline>'' \<Longrightarrow> one_line l \<Longrightarrow> l \<in> set (split_lines ?code)" for l
  proof -
    assume l: "t = l @ ''\<newline>''" "one_line l"
    have eq: "?code = (?head @ before) @ l @ CHR 0x0A # (after @ ?tail)"
      using parts(1) l(1) by simp
    have "l \<in> set (split_lines ((?head @ before) @ l @ CHR 0x0A # (after @ ?tail)))"
      using head l(2) by (rule line_member)
    then show ?thesis by (simp only: eq)
  qed
  have 1: "base_type (value_type field) = BASE_TYPE_STRUCT \<longrightarrow>
      ?start @ '' = nil'' \<in> set (split_lines ?code)"
  proof
    assume "base_type (value_type field) = BASE_TYPE_STRUCT"
    then have "t = (?start @ '' = nil'') @ ''\<newline>''"
      using parts(2) by (simp add: GenObjectDecl_field_def Let_def)
    moreover have "one_line (?start @ '' = nil'')"
      using assms(3) by (simp add: one_line_def)
    ultimately show "?start @ '' = nil'' \<in> set (split_lines ?code)" by (rule line)
  qed
  have 2: "base_type (value_type field) = BASE_TYPE_UNION \<longrightarrow>
      ?start @ '' = require('' @ quot @ TypeNameWithNamespace h field @ quot @ '').Union()''
        \<in> set (split_lines ?code)"
  proof
    assume "base_type (value_type field) = BASE_TYPE_UNION"
    then have "t = (?start @ '' = require('' @ quot @ TypeNameWithNamespace h field @ quot
                     @ '').Union()'') @ ''\<newline>''"
      using parts(2) by (simp add: GenObjectDecl_field_def Let_def)
    moreover have "one_line (?start @ '' = require('' @ quot @ TypeNameWithNamespace h field
                     @ quot @ '').Union()'')"
      using assms(3,4) by (simp add: one_line_def)
    ultimately show "?start @ '' = require('' @ quot @ TypeNameWithNamespace h field @ quot
        @ '').Union()'' \<in> set (split_lines ?code)" by (rule line)
  qed
  show ?thesis
    using 1 2 unfolding code option.case by (simp only: append_assoc simp_thms)
qed

theorem mirror_constructor_initial_values_witness:
  "pos_field \<in> set (fields Holder) \<and> base_type (value_type pos_field) = BASE_TYPE_STRUCT
   \<and> item_field \<in> set (fields Holder) \<and> base_type (value_type item_field) = BASE_TYPE_UNION
   \<and> (case GenObjectDecl_ObjectAPI lua_helpers object_api_options Holder of
         None \<Rightarrow> False
       | Some code \<Rightarrow>
           ''        this.Pos = nil'' \<in> set (split_lines code)
           \<and> ''        this.Item = require('Any').Union()'' \<in> set (split_lines code))"
proof -
  have 1: "pos_field \<in> set (fields Holder)" "item_field \<in> set (fields Holder)"
    by (simp_all add: Holder_def)
  have 2: "\<not> deprecated pos_field" "\<not> deprecated item_field"
    by (simp_all add: pos_field_def item_field_def)
  have 3: "one_line (MakeCamel lua_helpers (field_name pos_field) True)"
    "one_line (MakeCamel lua_helpers (field_name item_field) True)"
    by (simp_all add: sample_defs pos_field_def item_field_def)
  have 4: "one_line (TypeNameWithNamespace lua_helpers pos_field)"
    "one_line (TypeNameWithNamespace lua_helpers item_field)"
    by (simp_all add: sample_defs pos_field_def item_field_def TypeNameWithNamespace_def
          GetNamespace_def Vec3_def Any_def)
  have 5: "base_type (value_type pos_field) = BASE_TYPE_STRUCT"
    "base_type (value_type item_field) = BASE_TYPE_UNION"
    by (simp_all add: pos_field_def item_field_def)
  note pos = mirror_constructor_initial_values
    [where h = lua_helpers and opts = object_api_options, OF 1(1) 2(1) 3(1) 4(1)]
  note item = mirror_constructor_initial_values
    [where h = lua_helpers and opts = object_api_options, OF 1(2) 2(2) 3(2) 4(2)]
  have "case GenObjectDecl_ObjectAPI lua_helpers object_api_options Holder of
         None \<Rightarrow> False
       | Some code \<Rightarrow>
           ''        this.Pos = nil'' \<in> set (split_lines code)
           \<and> ''        this.Item = require('Any').Union()'' \<in> set (split_lines code)"
    using pos item
    by (cases "GenObjectDecl_ObjectAPI lua_helpers object_api_options Holder")
       (simp_all add: sample_defs pos_field_def item_field_def TypeNameWithNamespace_def
          GetNamespace_def Any_def)
  with 1 5 show ?thesis by simp
qed

text \<open>
  Claim C6 as stated fails on \<^verbatim>\<open>table Holder { pos:Vec3; friend:Monster; item:Any; }\<close>
  with \<^verbatim>\<open>union Any { Monster, Pet }\<close>: the constructor initializes \<^verbatim>\<open>Item\<close> to a
  union container, not to \<^verbatim>\<open>nil\<close>.
\<close>

theorem mirror_constructor_union_counterexample:
  "base_type (value_type item_field) = BASE_TYPE_UNION \<and> \<not> deprecated item_field
   \<and> map_option split_lines (GenObjectDecl_ObjectAPI lua_helpers object_api_options Holder) =
       Some [''Holder.T = {'',
             ''    __ctor__ = function (this)'',
             ''        this.Pos = nil'',
             ''        this.Friend = nil'',
             ''        this.Item = require('Any').Union()'',
             ''    end'',
             ''}'']"
  by code_simp

subsection \<open>Pack\<close>

lemma GenTypeGet_struct:
  "base_type t = BASE_TYPE_STRUCT \<Longrightarrow> struct_def t = Some s \<Longrightarrow>
   GenTypeGet h t = Some (struct_name s)"
  by (simp add: GenTypeGet.simps GenTypePointer.simps IsScalar_def)

lemma GenTypeGet_vector_of_struct:
  "base_type t = BASE_TYPE_VECTOR \<Longrightarrow> element t = BASE_TYPE_STRUCT \<Longrightarrow> struct_def t = Some s
   \<Longrightarrow> GenTypeGet h t = Some (struct_name s)"
  by (simp add: GenTypeGet.simps [of h t] GenTypePointer.simps [of h t] IsScalar_def
        GenTypeGet_struct VectorType_def)

lemma terminated_simps:
  "terminated []"
  "terminated (c # cs) = (if cs = [] then c = CHR 0x0A else terminated cs)"
  "terminated (a @ b) = (if b = [] then terminated a else terminated b)"
  by (auto simp: terminated_def)

lemma terminated_GenUnionUnPack: "terminated (GenUnionUnPack_ObjectAPI ed n v)"
  by (cases v) (simp_all add: GenUnionUnPack_ObjectAPI_def Let_def terminated_simps)

lemma GenUnionUnPack_not_Nil: "GenUnionUnPack_ObjectAPI ed n v \<noteq> []"
  by (cases v) (simp_all add: GenUnionUnPack_ObjectAPI_def Let_def)

lemma UnPackTo_field_total:
  assumes "pointers_set (value_type f)"
  shows "\<exists>t. UnPackTo_field h sd f = Some t \<and> terminated t"
proof -
  let ?t = "value_type f"
  consider (struct) "base_type ?t = BASE_TYPE_STRUCT"
    | (array) "base_type ?t = BASE_TYPE_ARRAY"
    | (vector) "base_type ?t = BASE_TYPE_VECTOR"
    | (utype) "base_type ?t = BASE_TYPE_UTYPE"
    | (union) "base_type ?t = BASE_TYPE_UNION"
    | (other) "base_type ?t \<noteq> BASE_TYPE_STRUCT" "base_type ?t \<noteq> BASE_TYPE_ARRAY"
        "base_type ?t \<noteq> BASE_TYPE_VECTOR" "base_type ?t \<noteq> BASE_TYPE_UTYPE"
        "base_type ?t \<noteq> BASE_TYPE_UNION"
    by blast
  then show ?thesis
  proof cases
    case struct
    with assms obtain s where "struct_def ?t = Some s" by (auto simp: pointers_set_def)
    with struct show ?thesis
      by (cases "fixed sd \<and> fixed s")
         (auto simp add: UnPackTo_field_def Let_def terminated_simps)
  next
    case array
    then show ?thesis
      by (cases "struct_def ?t")
         (simp_all add: UnPackTo_field_def Let_def terminated_simps)
  next
    case vector
    show ?thesis
    proof (cases "element ?t = BASE_TYPE_UNION")
      case True
      with assms vector obtain ed where "enum_def ?t = Some ed"
        by (auto simp: pointers_set_def)
      with vector True show ?thesis
        by (simp add: UnPackTo_field_def Let_def terminated_simps terminated_GenUnionUnPack
              GenUnionUnPack_not_Nil)
    next
      case False
      with vector show ?thesis
        by (simp add: UnPackTo_field_def Let_def terminated_simps)
    qed
  next
    case utype
    then show ?thesis by (simp add: UnPackTo_field_def Let_def terminated_simps)
  next
    case union
    with assms obtain ed where "enum_def ?t = Some ed" by (auto simp: pointers_set_def)
    with union show ?thesis
      by (simp add: UnPackTo_field_def Let_def terminated_GenUnionUnPack)
  next
    case other
    then show ?thesis by (simp add: UnPackTo_field_def Let_def terminated_simps)
  qed
qed

lemma Pack_offset_field_total:
  assumes "pointers_set (value_type f)"
  shows "\<exists>t. Pack_offset_field h c f = Some t \<and> terminated t"
proof -
  let ?t = "value_type f"
  consider (struct) "base_type ?t = BASE_TYPE_STRUCT"
    | (string) "base_type ?t = BASE_TYPE_STRING"
    | (vector) "base_type ?t = BASE_TYPE_VECTOR"
    | (array) "base_type ?t = BASE_TYPE_ARRAY"
    | (union) "base_type ?t = BASE_TYPE_UNION"
    | (other) "base_type ?t \<noteq> BASE_TYPE_STRUCT" "base_type ?t \<noteq> BASE_TYPE_STRING"
        "base_type ?t \<noteq> BASE_TYPE_VECTOR" "base_type ?t \<noteq> BASE_TYPE_ARRAY"
        "base_type ?t \<noteq> BASE_TYPE_UNION"
    by blast
  then show ?thesis
  proof cases
    case struct
    with assms obtain s where s: "struct_def ?t = Some s" by (auto simp: pointers_set_def)
    from struct s show ?thesis
      by (cases "fixed s")
         (simp_all add: Pack_offset_field_def Let_def terminated_simps GenTypeGet_struct)
  next
    case string
    then show ?thesis by (simp add: Pack_offset_field_def Let_def terminated_simps)
  next
    case vector
    then have st: "IsStruct ?t = Some False" by (simp add: IsStruct_def)
    show ?thesis
    proof (cases "IsScalar (element ?t)")
      case True
      with vector show ?thesis
        by (simp add: Pack_offset_field_def Let_def terminated_simps)
    next
      case False
      consider (el_string) "element ?t = BASE_TYPE_STRING"
        | (el_struct) "element ?t = BASE_TYPE_STRUCT"
        | (el_other) "element ?t \<noteq> BASE_TYPE_STRING" "element ?t \<noteq> BASE_TYPE_STRUCT"
        by blast
      then show ?thesis
      proof cases
        case el_string
        with vector False st show ?thesis
          by (simp add: Pack_offset_field_def Let_def terminated_simps)
      next
        case el_struct
        with assms vector obtain s where "struct_def ?t = Some s"
          by (auto simp: pointers_set_def)
        with vector False st el_struct show ?thesis
          by (simp add: Pack_offset_field_def Let_def terminated_simps
                GenTypeGet_vector_of_struct)
      next
        case el_other
        with vector False st show ?thesis
          by (simp add: Pack_offset_field_def Let_def terminated_simps)
      qed
    qed
  next
    case array
    then show ?thesis by (simp add: Pack_offset_field_def Let_def terminated_simps)
  next
    case union
    with assms obtain ed where "enum_def ?t = Some ed" by (auto simp: pointers_set_def)
    with union show ?thesis by (simp add: Pack_offset_field_def Let_def terminated_simps)
  next
    case other
    then show ?thesis by (simp add: Pack_offset_field_def Let_def terminated_simps)
  qed
qed

lemma Pack_create_field_total:
  assumes "pointers_set (value_type f)"
  shows "\<exists>t. Pack_create_field h f = Some t"
proof (cases "base_type (value_type f) = BASE_TYPE_STRUCT")
  case True
  with assms obtain s where "struct_def (value_type f) = Some s"
    by (auto simp: pointers_set_def)
  with True show ?thesis
    by (simp add: Pack_create_field_def Let_def GenTypeGet_struct)
next
  case False
  then show ?thesis by (simp add: Pack_create_field_def Let_def)
qed

lemma Pack_add_field_total:
  assumes "pointers_set (value_type f)"
  shows "\<exists>t. Pack_add_field h c f = Some t"
proof (cases "base_type (value_type f) = BASE_TYPE_STRUCT")
  case True
  with assms obtain s where "struct_def (value_type f) = Some s"
    by (auto simp: pointers_set_def)
  with True show ?thesis
    by (simp add: Pack_add_field_def Let_def GenTypeGet_struct)
next
  case False
  then show ?thesis by (simp add: Pack_add_field_def Let_def)
qed

lemma for_fields_defined:
  "\<forall>f \<in> set fs. \<not> deprecated f \<longrightarrow> (\<exists>t. body f = Some t)
   \<Longrightarrow> \<exists>out. for_fields body fs = Some out"
  by (induction fs) auto

text \<open>
  Claim C4, as the code has it. For a field that is a vector of unions the generator
  reports nothing and does not stop: it emits the \<^verbatim>\<open>Pack\<close> function, and in the loop
  that packs the elements the right side of the assignment to the element's slot of
  \<^verbatim>\<open>__<field>_array\<close> is the marker \<^verbatim>\<open>**not supported**\<close> instead of a call that
  packs the element.
\<close>

theorem vector_of_union_pack_marker:
  assumes wf: "\<forall>g \<in> set (fields sd). \<not> deprecated g \<longrightarrow> pointers_set (value_type g)"
    and field: "field \<in> set (fields sd)" "\<not> deprecated field"
    and vec: "base_type (value_type field) = BASE_TYPE_VECTOR"
    and un: "element (value_type field) = BASE_TYPE_UNION"
    and name: "one_line (field_name field)"
  shows "case GenUnPackPack_ObjectAPI h sd of
           None \<Rightarrow> False
         | Some code \<Rightarrow>
             Indent @ Indent @ Indent @ ''__'' @ field_name field
               @ ''_array[i] = **not supported**'' \<in> set (split_lines code)"
proof -
  let ?cname = "NormalizedName (struct_name sd)"
  let ?meta = "NormalizedMetaName (struct_name sd)"
  let ?camel = "MakeCamel h (field_name field) True"
  let ?marker = "Indent @ Indent @ Indent @ ''__'' @ field_name field
                 @ ''_array[i] = **not supported**''"
  let ?L1 = "Indent @ ''local _'' @ field_name field @ '' = 0\<newline>''
             @ Indent @ ''if o.'' @ ?camel @ ''~= nil then\<newline>''
             @ Indent @ Indent @ ''local __'' @ field_name field @ ''_length = #o.''
             @ ?camel @ ''\<newline>''
             @ Indent @ Indent @ ''local __'' @ field_name field @ ''_array = {}\<newline>''
             @ Indent @ Indent @ ''for i, v in ipairs(o.'' @ ?camel @ '') do\<newline>''"
  let ?L2 = "Indent @ Indent @ ''end\<newline>''
             @ Indent @ Indent @ ?cname @ ''.Start'' @ field_name field
             @ ''Vector(builder, __'' @ field_name field @ ''_length)\<newline>''
             @ Indent @ Indent @ ''for _j = __'' @ field_name field
             @ ''_length, 1, -1 do\<newline>''
             @ Indent @ Indent @ Indent @ ''builder:PrependUOffsetTRelative(__''
             @ field_name field @ ''_array[_j]))\<newline>''
             @ Indent @ Indent @ ''end\<newline>''
             @ Indent @ Indent @ ''_'' @ field_name field
             @ '' = builder:EndVector(__'' @ field_name field @ ''_length)\<newline>''
             @ Indent @ ''end\<newline>\<newline>''"
  have st: "IsStruct (value_type field) = Some False" "\<not> IsScalar (element (value_type field))"
    using vec un by (simp_all add: IsStruct_def IsScalar_def)
  have piece: "Pack_offset_field h ?cname field = Some (?L1 @ ?marker @ CHR 0x0A # ?L2)"
    using vec un st by (simp add: Pack_offset_field_def Let_def)
  have L1: "terminated ?L1" by (simp add: terminated_simps)
  have marker: "one_line ?marker" using name by (simp add: one_line_def)
  \<comment> \<open>the three loops return\<close>
  have "\<forall>f \<in> set (fields sd). \<not> deprecated f \<longrightarrow>
          (\<exists>t. UnPackTo_field h sd f = Some t \<and> terminated t)"
    using wf UnPackTo_field_total by blast
  from for_fields_total [OF this] obtain unpack where unpack:
    "for_fields (UnPackTo_field h sd) (fields sd) = Some unpack" "terminated unpack"
    by blast
  have "\<forall>f \<in> set (fields sd). \<not> deprecated f \<longrightarrow>
          (\<exists>t. Pack_offset_field h ?cname f = Some t \<and> terminated t)"
    using wf Pack_offset_field_total by blast
  from for_fields_total [OF this] obtain offsets where offsets:
    "for_fields (Pack_offset_field h ?cname) (fields sd) = Some offsets" by blast
  have ends: "\<forall>g \<in> set (fields sd). \<not> deprecated g \<longrightarrow>
      (\<forall>t. Pack_offset_field h ?cname g = Some t \<longrightarrow> terminated t)"
  proof (intro ballI allI impI)
    fix g t assume "g \<in> set (fields sd)" "\<not> deprecated g"
      and t: "Pack_offset_field h ?cname g = Some t"
    with wf have "pointers_set (value_type g)" by blast
    from Pack_offset_field_total [OF this, of h ?cname] t show "terminated t" by auto
  qed
  from for_fields_split [OF offsets field ends] piece obtain before after where parts:
    "offsets = before @ (?L1 @ ?marker @ CHR 0x0A # ?L2) @ after" "terminated before"
    by auto
  have "\<forall>f \<in> set (fields sd). \<not> deprecated f \<longrightarrow> (\<exists>t. Pack_create_field h f = Some t)"
    using wf Pack_create_field_total by blast
  from for_fields_defined [OF this] obtain args where args:
    "for_fields (Pack_create_field h) (fields sd) = Some args" by blast
  have "\<forall>f \<in> set (fields sd). \<not> deprecated f \<longrightarrow> (\<exists>t. Pack_add_field h ?cname f = Some t)"
    using wf Pack_add_field_total by blast
  from for_fields_defined [OF this] obtain adds where adds:
    "for_fields (Pack_add_field h ?cname) (fields sd) = Some adds" by blast
  let ?H = "''\<newline>--Object Base API\<newline>''
            @ ''function '' @ ?meta @ '':UnPack()\<newline>''
            @ ''    local o = '' @ ?cname @ ''.T()\<newline>''
            @ ''    self:UnPackTo(o)\<newline>''
            @ ''    return o\<newline>''
            @ ''end\<newline>\<newline>''
            @ ''function '' @ ?meta @ '':UnPackTo(o)\<newline>''
            @ Indent @ ''local length = 0\<newline>''"
  let ?M = "''end\<newline>\<newline>'' @ ''function '' @ ?meta @ '':Pack(builder, o)\<newline>''"
  obtain rest where code:
    "GenUnPackPack_ObjectAPI h sd = Some (?H @ unpack @ ?M @ offsets @ rest)"
    using unpack(1) offsets args adds
    by (cases "fixed sd") (simp_all add: GenUnPackPack_ObjectAPI_def Let_def)
  have H: "terminated ?H" by (simp add: terminated_simps)
  have M: "terminated ?M" by (simp add: terminated_simps)
  have pre: "terminated (?H @ unpack @ ?M @ before @ ?L1)"
    by (intro terminated_append H unpack(2) M parts(2) L1)
  have eq: "?H @ unpack @ ?M @ offsets @ rest =
      (?H @ unpack @ ?M @ before @ ?L1) @ ?marker @ CHR 0x0A # (?L2 @ after @ rest)"
    unfolding parts(1) by (simp only: append_assoc append_Cons)
  have "?marker \<in> set (split_lines ((?H @ unpack @ ?M @ before @ ?L1) @ ?marker
          @ CHR 0x0A # (?L2 @ after @ rest)))"
    using pre marker by (rule line_member)
  then have "?marker \<in> set (split_lines (?H @ unpack @ ?M @ offsets @ rest))"
    by (simp only: eq)
  then show ?thesis unfolding code option.case .
qed

theorem vector_of_union_pack_marker_witness:
  "base_type (value_type items_field) = BASE_TYPE_VECTOR
   \<and> element (value_type items_field) = BASE_TYPE_UNION
   \<and> (case GenUnPackPack_ObjectAPI lua_helpers Bag of
         None \<Rightarrow> False
       | Some code \<Rightarrow>
           ''            __items_array[i] = **not supported**'' \<in> set (split_lines code))"
proof -
  have 1: "\<forall>g \<in> set (fields Bag). \<not> deprecated g \<longrightarrow> pointers_set (value_type g)"
    by (simp add: Bag_def items_field_def items_type_field_def pointers_set_def)
  have 2: "items_field \<in> set (fields Bag)" "\<not> deprecated items_field"
    by (simp_all add: Bag_def items_field_def)
  have 3: "base_type (value_type items_field) = BASE_TYPE_VECTOR"
    "element (value_type items_field) = BASE_TYPE_UNION"
    by (simp_all add: items_field_def)
  have 4: "one_line (field_name items_field)" by (simp add: items_field_def one_line_def)
  from vector_of_union_pack_marker [where h = lua_helpers, OF 1 2 3 4]
  have "case GenUnPackPack_ObjectAPI lua_helpers Bag of
         None \<Rightarrow> False
       | Some code \<Rightarrow>
           ''            __items_array[i] = **not supported**'' \<in> set (split_lines code)"
    by (cases "GenUnPackPack_ObjectAPI lua_helpers Bag") (simp_all add: items_field_def)
  with 3 show ?thesis by simp
qed

text \<open>
  Claim C4 as stated fails on \<^verbatim>\<open>table Bag { items:[Any]; }\<close>: the generator returns
  the code of \<^verbatim>\<open>UnPack\<close>, \<^verbatim>\<open>UnPackTo\<close> and \<^verbatim>\<open>Pack\<close>, with the marker inside
  \<^verbatim>\<open>Pack\<close>, and no failure.
\<close>

theorem vector_of_union_pack_counterexample:
  "base_type (value_type items_field) = BASE_TYPE_VECTOR
   \<and> element (value_type items_field) = BASE_TYPE_UNION
   \<and> items_field \<in> set (fields Bag) \<and> \<not> deprecated items_field
   \<and> GenStruct lua_helpers object_api_options Bag \<noteq> None
   \<and> map_option split_lines (GenUnPackPack_ObjectAPI lua_helpers Bag) =
       Some [[],
          ''--Object Base API'',
          ''function Bag_mt:UnPack()'',
          ''    local o = Bag.T()'',
          ''    self:UnPackTo(o)'',
          ''    return o'',
          ''end'',
          [],
          ''function Bag_mt:UnPackTo(o)'',
          ''    local length = 0'',
          ''    length = self:ItemsTypeLength()'',
          ''    length = self:ItemsLength()'',
          ''    o.Items = {}'',
          ''    for j = 1, length do'',
          ''      var _o_Items = Any.Union()'',
          ''      _o_Items.Type = self:ItemsType(_j)'',
          ''      local t = Any.__dataTypeToClass[o.Items.Type]'',
          ''      if t ~= nil then'',
          ''          local d = self:Items(_j)'',
          ''          if d ~= nil then'',
          ''              if t == string then -- string'',
          ''                  _o_Items.Value = d'',
          ''              else -- table/struct'',
          ''                  local v = t.New()'',
          ''                  v:Init(d.bytes, d.pos)'',
          ''                  _o_Items.Value = v:UnPack()'',
          ''              end'',
          ''          end'',
          ''      end'',
          ''      _o.Items[_j] = _o_Items'',
          ''    end'',
          [],
          ''end'',
          [],
          ''function Bag_mt:Pack(builder, o)'',
          ''    local _items_type = 0'',
          ''    if o.ItemsType~= nil then'',
          ''        local __items_type_length = #o.ItemsType'',
          ''        Bag.Startitems_typeVector(builder, __items_type_length)'',
          ''        for _j = __items_type_length, 1, -1 do'',
          ''            builder:PrependUint8(o.ItemsType[_j])'',
          ''        end'',
          ''        _items_type = builder:EndVector(__items_type_length)'',
          ''    end'',
          [],
          ''    local _items = 0'',
          ''    if o.Items~= nil then'',
          ''        local __items_length = #o.Items'',
          ''        local __items_array = {}'',
          ''        for i, v in ipairs(o.Items) do'',
          ''            __items_array[i] = **not supported**'',
          ''        end'',
          ''        Bag.StartitemsVector(builder, __items_length)'',
          ''        for _j = __items_length, 1, -1 do'',
          ''            builder:PrependUOffsetTRelative(__items_array[_j]))'',
          ''        end'',
          ''        _items = builder:EndVector(__items_length)'',
          ''    end'',
          [],
          ''    Bag.Start(builder)'',
          ''    Bag.AddItemsType(builder, _items_type)'',
          ''    Bag.AddItems(builder, _items)'',
          ''    return Bag.End(builder)'',
          ''end'',
          []]"
  by code_simp

subsection \<open>Struct builders\<close>

lemma IsStruct_cases:
  "IsStruct t = Some True \<longleftrightarrow> base_type t = BASE_TYPE_STRUCT \<and> (\<exists>s. struct_def t = Some s \<and> fixed s)"
  by (auto simp: IsStruct_def split: option.splits)

lemma args_fields:
  "(\<And>field s. field \<in> set fs \<Longrightarrow> struct_def (value_type field) = Some s \<Longrightarrow>
       base_type (value_type field) = BASE_TYPE_STRUCT \<Longrightarrow> fixed s \<Longrightarrow>
       StructBuilderArgs h s (p @ NormalizedName (field_name field) @ ''_'') =
         Some (concat (map (\<lambda>leaf. '', '' @ spec_parameter h leaf)
           (spec_leaf_fields s (p @ NormalizedName (field_name field) @ ''_'')))))
   \<Longrightarrow> \<forall>field \<in> set fs. struct_def (value_type field) = None \<longrightarrow>
         base_type (value_type field) \<noteq> BASE_TYPE_STRUCT
   \<Longrightarrow> StructBuilderArgs_fields h fs p =
       Some (concat (map (\<lambda>leaf. '', '' @ spec_parameter h leaf)
         (concat (map
           (\<lambda>field.
              case struct_def (value_type field) of
                None \<Rightarrow> [(p, field)]
              | Some s \<Rightarrow>
                  (if base_type (value_type field) = BASE_TYPE_STRUCT \<and> fixed s
                   then spec_leaf_fields s (p @ NormalizedName (field_name field) @ ''_'')
                   else [(p, field)]))
           fs))))"
proof (induction fs)
  case Nil
  then show ?case by (simp add: StructBuilderArgs.simps)
next
  case (Cons f fs)
  have rest: "StructBuilderArgs_fields h fs p =
       Some (concat (map (\<lambda>leaf. '', '' @ spec_parameter h leaf)
         (concat (map
           (\<lambda>field.
              case struct_def (value_type field) of
                None \<Rightarrow> [(p, field)]
              | Some s \<Rightarrow>
                  (if base_type (value_type field) = BASE_TYPE_STRUCT \<and> fixed s
                   then spec_leaf_fields s (p @ NormalizedName (field_name field) @ ''_'')
                   else [(p, field)]))
           fs))))"
    using Cons.prems by (intro Cons.IH) auto
  show ?case
  proof (cases "struct_def (value_type f)")
    case None
    with Cons.prems(2) have "base_type (value_type f) \<noteq> BASE_TYPE_STRUCT" by simp
    with None rest show ?thesis
      by (simp add: StructBuilderArgs.simps IsStruct_def spec_parameter_def)
  next
    case (Some s)
    show ?thesis
    proof (cases "base_type (value_type f) = BASE_TYPE_STRUCT \<and> fixed s")
      case True
      with Some Cons.prems(1) [of f s] have
        "StructBuilderArgs h s (p @ NormalizedName (field_name f) @ ''_'') =
           Some (concat (map (\<lambda>leaf. '', '' @ spec_parameter h leaf)
             (spec_leaf_fields s (p @ NormalizedName (field_name f) @ ''_''))))"
        by simp
      with True Some rest show ?thesis
        by (simp add: StructBuilderArgs.simps IsStruct_def)
    next
      case False
      with Some rest show ?thesis
        by (auto simp add: StructBuilderArgs.simps IsStruct_def spec_parameter_def)
    qed
  qed
qed

lemma StructBuilderArgs_leaves:
  "inline_structs_defined sd \<Longrightarrow>
   StructBuilderArgs h sd p =
     Some (concat (map (\<lambda>leaf. '', '' @ spec_parameter h leaf) (spec_leaf_fields sd p)))"
proof (induction sd arbitrary: p rule: measure_induct_rule [where f = size])
  case (less sd)
  have wf: "\<forall>field \<in> set (fields sd).
        case struct_def (value_type field) of
          None \<Rightarrow> base_type (value_type field) \<noteq> BASE_TYPE_STRUCT
        | Some s \<Rightarrow>
            (if base_type (value_type field) = BASE_TYPE_STRUCT \<and> fixed s
             then inline_structs_defined s else True)"
    using less.prems by (subst (asm) inline_structs_defined.simps)
  have "StructBuilderArgs_fields h (fields sd) p =
       Some (concat (map (\<lambda>leaf. '', '' @ spec_parameter h leaf)
         (concat (map
           (\<lambda>field.
              case struct_def (value_type field) of
                None \<Rightarrow> [(p, field)]
              | Some s \<Rightarrow>
                  (if base_type (value_type field) = BASE_TYPE_STRUCT \<and> fixed s
                   then spec_leaf_fields s (p @ NormalizedName (field_name field) @ ''_'')
                   else [(p, field)]))
           (fields sd)))))"
  proof (rule args_fields)
    fix field s
    assume f: "field \<in> set (fields sd)" and s: "struct_def (value_type field) = Some s"
      and st: "base_type (value_type field) = BASE_TYPE_STRUCT" "fixed s"
    from wf f s st have "inline_structs_defined s" by fastforce
    moreover from f s have "size s < size sd" by (rule nested_struct_size)
    ultimately show "StructBuilderArgs h s (p @ NormalizedName (field_name field) @ ''_'') =
         Some (concat (map (\<lambda>leaf. '', '' @ spec_parameter h leaf)
           (spec_leaf_fields s (p @ NormalizedName (field_name field) @ ''_''))))"
      by (rule less.IH [rotated])
  next
    show "\<forall>field \<in> set (fields sd). struct_def (value_type field) = None \<longrightarrow>
         base_type (value_type field) \<noteq> BASE_TYPE_STRUCT"
      using wf by fastforce
  qed
  then show ?case
    by (subst StructBuilderArgs.simps, subst spec_leaf_fields.simps) simp
qed

lemma GenMethod_leaf:
  "IsStruct (value_type field) = Some False \<Longrightarrow> GenMethod h field = Some (spec_method h field)"
  by (simp add: GenMethod_def spec_method_def)


lemma body_fields:
  "(\<And>field s. field \<in> set fs \<Longrightarrow> struct_def (value_type field) = Some s \<Longrightarrow>
       base_type (value_type field) = BASE_TYPE_STRUCT \<Longrightarrow> fixed s \<Longrightarrow>
       StructBuilderBody h s (p @ NormalizedName (field_name field) @ ''_'') =
         Some (concat (map (render h)
           (spec_builder_statements h s (p @ NormalizedName (field_name field) @ ''_'')))))
   \<Longrightarrow> \<forall>field \<in> set fs. struct_def (value_type field) = None \<longrightarrow>
         base_type (value_type field) \<noteq> BASE_TYPE_STRUCT
   \<Longrightarrow> StructBuilderBody_fields h fs p =
       Some (concat (map (render h) (concat (map (field_statements h p) (rev fs)))))"
proof (induction fs)
  case Nil
  then show ?case by (simp add: StructBuilderBody.simps)
next
  case (Cons f fs)
  have rest: "StructBuilderBody_fields h fs p =
       Some (concat (map (render h) (concat (map (field_statements h p) (rev fs)))))"
    using Cons.prems by (intro Cons.IH) auto
  show ?case
  proof (cases "struct_def (value_type f)")
    case None
    with Cons.prems(2) have "base_type (value_type f) \<noteq> BASE_TYPE_STRUCT" by simp
    with None rest show ?thesis
      by (simp add: StructBuilderBody.simps IsStruct_def GenMethod_leaf spec_parameter_def)
  next
    case (Some s)
    show ?thesis
    proof (cases "base_type (value_type f) = BASE_TYPE_STRUCT \<and> fixed s")
      case True
      with Some Cons.prems(1) [of f s] have
        "StructBuilderBody h s (p @ NormalizedName (field_name f) @ ''_'') =
           Some (concat (map (render h)
             (spec_builder_statements h s (p @ NormalizedName (field_name f) @ ''_''))))"
        by simp
      with True Some rest show ?thesis
        by (simp add: StructBuilderBody.simps IsStruct_def)
    next
      case False
      then have "IsStruct (value_type f) = Some False"
        using Some by (auto simp: IsStruct_def)
      with False Some rest show ?thesis
        by (auto simp add: StructBuilderBody.simps GenMethod_leaf
              spec_parameter_def)
    qed
  qed
qed

lemma StructBuilderBody_statements:
  "inline_structs_defined sd \<Longrightarrow>
   StructBuilderBody h sd p = Some (concat (map (render h) (spec_builder_statements h sd p)))"
proof (induction sd arbitrary: p rule: measure_induct_rule [where f = size])
  case (less sd)
  have wf: "\<forall>field \<in> set (fields sd).
        case struct_def (value_type field) of
          None \<Rightarrow> base_type (value_type field) \<noteq> BASE_TYPE_STRUCT
        | Some s \<Rightarrow>
            (if base_type (value_type field) = BASE_TYPE_STRUCT \<and> fixed s
             then inline_structs_defined s else True)"
    using less.prems by (subst (asm) inline_structs_defined.simps)
  have "StructBuilderBody_fields h (fields sd) p =
       Some (concat (map (render h) (concat (map (field_statements h p) (rev (fields sd))))))"
  proof (rule body_fields)
    fix field s
    assume f: "field \<in> set (fields sd)" and s: "struct_def (value_type field) = Some s"
      and st: "base_type (value_type field) = BASE_TYPE_STRUCT" "fixed s"
    from wf f s st have "inline_structs_defined s" by fastforce
    moreover from f s have "size s < size sd" by (rule nested_struct_size)
    ultimately show "StructBuilderBody h s (p @ NormalizedName (field_name field) @ ''_'') =
         Some (concat (map (render h)
           (spec_builder_statements h s (p @ NormalizedName (field_name field) @ ''_''))))"
      by (rule less.IH [rotated])
  next
    show "\<forall>field \<in> set (fields sd). struct_def (value_type field) = None \<longrightarrow>
         base_type (value_type field) \<noteq> BASE_TYPE_STRUCT"
      using wf by fastforce
  qed
  then show ?case
    by (subst StructBuilderBody.simps, subst spec_builder_statements.simps) simp
qed

lemma Prepend_statements_reverse_leaves:
  "filter is_Prepend (spec_builder_statements h sd p) =
     rev (map (\<lambda>leaf. Prepend (spec_method h (snd leaf)) (spec_parameter h leaf))
            (spec_leaf_fields sd p))"
proof (induction sd arbitrary: p rule: measure_induct_rule [where f = size])
  case (less sd)
  have each: "filter is_Prepend (field_statements h p field) =
      rev (map (\<lambda>leaf. Prepend (spec_method h (snd leaf)) (spec_parameter h leaf))
        (case struct_def (value_type field) of
           None \<Rightarrow> [(p, field)]
         | Some s \<Rightarrow>
             (if base_type (value_type field) = BASE_TYPE_STRUCT \<and> fixed s
              then spec_leaf_fields s (p @ NormalizedName (field_name field) @ ''_'')
              else [(p, field)])))"
    if f: "field \<in> set (fields sd)" for field
  proof (cases "struct_def (value_type field)")
    case None
    then show ?thesis by simp
  next
    case (Some s)
    from f Some have "size s < size sd" by (rule nested_struct_size)
    from less.IH [OF this] Some show ?thesis by simp
  qed
  have "filter is_Prepend (concat (map (field_statements h p) (rev (fields sd)))) =
      concat (map (\<lambda>field. filter is_Prepend (field_statements h p field)) (rev (fields sd)))"
    by (simp add: filter_concat comp_def)
  also have "\<dots> = concat (map
      (\<lambda>field. rev (map (\<lambda>leaf. Prepend (spec_method h (snd leaf)) (spec_parameter h leaf))
        (case struct_def (value_type field) of
           None \<Rightarrow> [(p, field)]
         | Some s \<Rightarrow>
             (if base_type (value_type field) = BASE_TYPE_STRUCT \<and> fixed s
              then spec_leaf_fields s (p @ NormalizedName (field_name field) @ ''_'')
              else [(p, field)]))))
      (rev (fields sd)))"
    using each by (intro arg_cong [where f = concat] map_cong) auto
  finally show ?case
    by (subst spec_builder_statements.simps, subst spec_leaf_fields.simps)
       (simp add: rev_concat rev_map map_concat comp_def)
qed

text \<open>
  Claim C7, as the code has it. The parameter list of the builder has one parameter for
  each leaf field, in declared order; its name is the prefix of the leaf, which is the
  escaped names of the fields above it with an underscore after each, followed by the
  escaped name of the leaf in camel case. The body is the statements of
  \<open>spec_builder_statements\<close>: one \<^verbatim>\<open>Prepend\<close> for each leaf field, in reverse declared
  order, and a \<^verbatim>\<open>Pad\<close> before each field with nonzero padding.
\<close>

theorem struct_builder_parameters_and_statements:
  assumes "inline_structs_defined sd"
  shows "StructBuilderArgs h sd prefix =
           Some (concat (map (\<lambda>leaf. '', '' @ spec_parameter h leaf)
             (spec_leaf_fields sd prefix)))
         \<and> StructBuilderBody h sd prefix =
           Some (concat (map (render h) (spec_builder_statements h sd prefix)))
         \<and> filter is_Prepend (spec_builder_statements h sd prefix) =
           rev (map (\<lambda>leaf. Prepend (spec_method h (snd leaf)) (spec_parameter h leaf))
             (spec_leaf_fields sd prefix))"
  using StructBuilderArgs_leaves [OF assms] StructBuilderBody_statements [OF assms]
    Prepend_statements_reverse_leaves
  by (intro conjI)

theorem struct_builder_parameters_and_statements_witness:
  "inline_structs_defined Line
   \<and> StructBuilderArgs lua_helpers Line [] =
       Some '', start_x, start_y, start_z, _end_x, _end_y, _end_z''
   \<and> map_option split_lines (StructBuilderBody lua_helpers Line []) =
       Some [''    builder:Prep(4, 24)'',
             ''    builder:Prep(4, 12)'',
             ''    builder:PrependFloat32(_end_z)'',
             ''    builder:PrependFloat32(_end_y)'',
             ''    builder:PrependFloat32(_end_x)'',
             ''    builder:Prep(4, 12)'',
             ''    builder:PrependFloat32(start_z)'',
             ''    builder:PrependFloat32(start_y)'',
             ''    builder:PrependFloat32(start_x)'']
   \<and> inline_structs_defined Test
   \<and> map_option split_lines (StructBuilderBody lua_helpers Test []) =
       Some [''    builder:Prep(2, 4)'',
             ''    builder:Pad(1)'',
             ''    builder:PrependInt8(b)'',
             ''    builder:PrependInt16(a)'']"
proof -
  have 1: "inline_structs_defined Line" by code_simp
  have 2: "inline_structs_defined Test" by code_simp
  note line = struct_builder_parameters_and_statements [OF 1, of lua_helpers "[]"]
  note test = struct_builder_parameters_and_statements [OF 2, of lua_helpers "[]"]
  have 3: "concat (map (\<lambda>leaf. '', '' @ spec_parameter lua_helpers leaf)
             (spec_leaf_fields Line [])) =
           '', start_x, start_y, start_z, _end_x, _end_y, _end_z''"
    by code_simp
  have 4: "split_lines (concat (map (render lua_helpers)
             (spec_builder_statements lua_helpers Line []))) =
       [''    builder:Prep(4, 24)'',
        ''    builder:Prep(4, 12)'',
        ''    builder:PrependFloat32(_end_z)'',
        ''    builder:PrependFloat32(_end_y)'',
        ''    builder:PrependFloat32(_end_x)'',
        ''    builder:Prep(4, 12)'',
        ''    builder:PrependFloat32(start_z)'',
        ''    builder:PrependFloat32(start_y)'',
        ''    builder:PrependFloat32(start_x)'']"
    by code_simp
  have 5: "split_lines (concat (map (render lua_helpers)
             (spec_builder_statements lua_helpers Test []))) =
       [''    builder:Prep(2, 4)'',
        ''    builder:Pad(1)'',
        ''    builder:PrependInt8(b)'',
        ''    builder:PrependInt16(a)'']"
    by code_simp
  from line test 1 2 3 4 5 show ?thesis by simp
qed

text \<open>
  Claim C7 as stated fails on its own example: \<^verbatim>\<open>end\<close> is a reserved word of Lua, so
  the field \<^verbatim>\<open>end\<close> of \<^verbatim>\<open>struct Line { start:Vec3; end:Vec3; }\<close> is escaped, and the
  last three parameters are \<^verbatim>\<open>_end_x\<close>, \<^verbatim>\<open>_end_y\<close>, \<^verbatim>\<open>_end_z\<close>.
\<close>

theorem struct_builder_parameters_counterexample:
  "StructBuilderArgs lua_helpers Line [] \<noteq>
     Some '', start_x, start_y, start_z, end_x, end_y, end_z''
   \<and> StructBuilderArgs lua_helpers Line [] =
     Some '', start_x, start_y, start_z, _end_x, _end_y, _end_z''"
  by code_simp

end
